theory Spec2Isabelle
  imports Complex_Main "HOL-Library.Word" "HOL-Library.Signed_Division"
begin

section \<open>Apefighter: the simulation engine of \<^verbatim>\<open>src/Apefighter.cxx\<close>\<close>

text \<open>
  The development embeds the game objects, the spawn functions, the three player
  actions and the per-frame function \<^verbatim>\<open>updateGame\<close> of the C++ source, and
  proves properties of collision resolution, scoring, spawning and the player's counters.

  Conventions of the embedding.
  \<^item> Every C++ \<^verbatim>\<open>struct\<close> is a record. The fields keep their names, prefixed by
    the variable name the source uses for that struct (\<^verbatim>\<open>b.x\<close> is \<open>b_x b\<close>,
    \<^verbatim>\<open>g.player\<close> is \<open>g_player g\<close>), because several structs share field names.
  \<^item> \<^verbatim>\<open>float\<close> is idealised as \<open>real\<close>: rounding, infinities and NaN are not
    modelled. A float division whose divisor is zero cannot be followed in that
    idealisation; every function that divides by a value that is not a non-zero constant
    returns an \<open>option\<close>, and \<open>None\<close> means that such a division was evaluated.
  \<^item> \<^verbatim>\<open>int\<close> is \<open>int\<close>; signed overflow (undefined behaviour in C++) is not
    modelled. \<^verbatim>\<open>/\<close> on \<^verbatim>\<open>int\<close> truncates towards zero (\<open>sdiv\<close>).
  \<^item> \<^verbatim>\<open>rand()\<close> reads a hidden global generator. The model keeps the sequence of
    its future results in the field \<open>g_rng\<close> of the game state; each call returns the
    head of the sequence and advances it.
  \<^item> A range-\<^verbatim>\<open>for\<close> loop over a pool is a recursive function over the list of
    its elements that rebuilds the list; the rest of the game state is threaded through.
\<close>

subsection \<open>Constants and helpers\<close>

abbreviation SCREEN_W :: int where "SCREEN_W \<equiv> 720"
abbreviation SCREEN_H :: int where "SCREEN_H \<equiv> 1600"

text \<open>\<^verbatim>\<open>HUD_H = (int)(160 * UI_SCALE)\<close> with \<^verbatim>\<open>UI_SCALE = 2.0f\<close>, and
  \<^verbatim>\<open>PLAY_H = SCREEN_H - HUD_H\<close>.\<close>

abbreviation HUD_H :: int where "HUD_H \<equiv> 320"
abbreviation PLAY_H :: int where "PLAY_H \<equiv> SCREEN_H - HUD_H"

datatype GameState = STATE_MENU | STATE_PLAYING | STATE_PAUSED | STATE_GAMEOVER | STATE_WIN

datatype Color = Color "8 word" "8 word" "8 word" "8 word"

definition C_FIRE :: Color where "C_FIRE = Color 255 140 0 255"
definition C_BULLET :: Color where "C_BULLET = Color 255 255 0 255"
definition C_GREEN :: Color where "C_GREEN = Color 0 255 80 255"
definition C_PURPLE :: Color where "C_PURPLE = Color 160 32 240 255"

definition lerp :: "real \<Rightarrow> real \<Rightarrow> real \<Rightarrow> real" where
  "lerp a b t = a + (b - a) * t"

definition clamp :: "real \<Rightarrow> real \<Rightarrow> real \<Rightarrow> real" where
  "clamp v lo hi = (if v < lo then lo else if v > hi then hi else v)"

definition dist2D :: "real \<Rightarrow> real \<Rightarrow> real \<Rightarrow> real \<Rightarrow> real" where
  "dist2D x1 y1 x2 y2 = (let dx = x2 - x1; dy = y2 - y1 in sqrt (dx * dx + dy * dy))"

text \<open>Float division: \<open>None\<close> when the divisor is zero.\<close>

definition fdiv :: "real \<Rightarrow> real \<Rightarrow> real option" where
  "fdiv a b = (if b = 0 then None else Some (a / b))"

text \<open>The guarded normalisation that the source writes out three times (in
  \<^verbatim>\<open>spawnMissile\<close>, in the homing block and in the enemy shooting block of
  \<^verbatim>\<open>updateGame\<close>):
  \<^verbatim>\<open>float len = sqrtf(dx*dx + dy*dy); if (len > 0) { dx /= len; dy /= len; }\<close>\<close>

definition normalize :: "real \<Rightarrow> real \<Rightarrow> (real \<times> real) option" where
  "normalize dx dy =
     (let len = sqrt (dx * dx + dy * dy) in
      if len > 0 then
        (case fdiv dx len of
           None \<Rightarrow> None
         | Some dx' \<Rightarrow> (case fdiv dy len of None \<Rightarrow> None | Some dy' \<Rightarrow> Some (dx', dy')))
      else Some (dx, dy))"

text \<open>The conversion \<^verbatim>\<open>(int)f\<close> of a float truncates towards zero.\<close>

definition float_to_int :: "real \<Rightarrow> int" where
  "float_to_int r = (if 0 \<le> r then \<lfloor>r\<rfloor> else \<lceil>r\<rceil>)"

text \<open>\<^verbatim>\<open>atan2f\<close>, from \<open>arctan\<close>.\<close>

definition atan2f :: "real \<Rightarrow> real \<Rightarrow> real" where
  "atan2f y x =
     (if x > 0 then arctan (y / x)
      else if x < 0 \<and> y \<ge> 0 then arctan (y / x) + pi
      else if x < 0 then arctan (y / x) - pi
      else if y > 0 then pi / 2
      else if y < 0 then - (pi / 2)
      else 0)"

subsection \<open>Game objects\<close>

record Bullet =
  b_x :: real
  b_y :: real
  b_vx :: real
  b_vy :: real
  b_active :: bool
  b_isEnemy :: bool
  b_damage :: int
  b_col :: Color

record Missile =
  m_x :: real
  m_y :: real
  m_vx :: real
  m_vy :: real
  m_targetX :: real
  m_targetY :: real
  m_active :: bool
  m_isEnemy :: bool
  m_damage :: int
  m_life :: real

record Explosion =
  ex_x :: real
  ex_y :: real
  ex_radius :: real
  ex_maxRadius :: real
  ex_life :: real
  ex_maxLife :: real
  ex_col :: Color

text \<open>\<open>pu_type\<close>: 0 = health, 1 = shield, 2 = rapid, 3 = missile, 4 = bomb.\<close>

record PowerUp =
  pu_x :: real
  pu_y :: real
  pu_vy :: real
  pu_active :: bool
  pu_type :: int
  pu_bob :: real

text \<open>\<open>e_type\<close>: 0 = basic, 1 = fast, 2 = heavy, 3 = boss.\<close>

record EnemyJet =
  e_x :: real
  e_y :: real
  e_vx :: real
  e_vy :: real
  e_active :: bool
  e_hp :: int
  e_maxHp :: int
  e_type :: int
  e_shootTimer :: real
  e_shootInterval :: real
  e_moveTimer :: real
  e_depth :: real
  e_score :: int

record Star =
  s_x :: real
  s_y :: real
  s_speed :: real
  s_brightness :: real
  s_size :: int

record Cloud =
  c_x :: real
  c_y :: real
  c_speed :: real
  c_w :: real
  c_h :: real
  c_alpha :: int

record Mountain =
  mt_x :: real
  mt_h :: real
  mt_speed :: real
  mt_col :: Color

record Player =
  p_x :: real
  p_y :: real
  p_vx :: real
  p_vy :: real
  p_hp :: int
  p_maxHp :: int
  p_shield :: int
  p_maxShield :: int
  p_shieldActive :: bool
  p_shieldTimer :: real
  p_score :: int
  p_lives :: int
  p_level :: int
  p_kills :: int
  p_ammo :: int
  p_bombs :: int
  p_rapidFire :: bool
  p_rapidTimer :: real
  p_shootCooldown :: real
  p_shootTimer :: real
  p_thrusterAnim :: real
  p_invTimer :: real
  p_dragging :: bool
  p_dragOffX :: real
  p_dragOffY :: real
  p_tiltX :: real
  p_tiltY :: real

text \<open>The game state. The fields of \<^verbatim>\<open>struct Game\<close> that only \<^verbatim>\<open>main\<close>, the
  input decoding and the drawing functions use (window, renderer, \<^verbatim>\<open>lastTime\<close>,
  \<^verbatim>\<open>menuAnim\<close>, the scroll offsets, the unused cloud, mountain and boss timers, the HUD
  button rectangles) are left out; \<open>g_rng\<close> is the sequence of the future results of
  \<^verbatim>\<open>rand()\<close>.\<close>

record Game =
  g_state :: GameState
  g_player :: Player
  g_bullets :: "Bullet list"
  g_missiles :: "Missile list"
  g_explosions :: "Explosion list"
  g_powerups :: "PowerUp list"
  g_enemies :: "EnemyJet list"
  g_stars :: "Star list"
  g_clouds :: "Cloud list"
  g_mountains :: "Mountain list"
  g_dt :: real
  g_gameTime :: real
  g_enemySpawnTimer :: real
  g_enemySpawnInterval :: real
  g_powerupSpawnTimer :: real
  g_bossAlive :: bool
  g_gameoverTimer :: real
  g_combo :: int
  g_comboTimer :: real
  g_highScore :: int
  g_shakeTimer :: real
  g_shakeAmt :: real
  g_touchX :: int
  g_touchY :: int
  g_rng :: "nat \<Rightarrow> nat"

definition rand :: "Game \<Rightarrow> nat \<times> Game" where
  "rand g = (g_rng g 0, g\<lparr>g_rng := (\<lambda>n. g_rng g (Suc n))\<rparr>)"


subsection \<open>Iteration over a pool\<close>

text \<open>\<^verbatim>\<open>for (auto& x : pool) body\<close>: the body may change the element and the state
  \<open>s\<close> it runs in. \<open>forEachM\<close> is the same loop for a body that may evaluate a float
  division by zero.\<close>

fun forEach :: "('a \<Rightarrow> 's \<Rightarrow> 'a \<times> 's) \<Rightarrow> 'a list \<Rightarrow> 's \<Rightarrow> 'a list \<times> 's" where
  "forEach body [] s = ([], s)"
| "forEach body (x # xs) s =
     (case body x s of (x', s1) \<Rightarrow>
        (case forEach body xs s1 of (xs', s2) \<Rightarrow> (x' # xs', s2)))"

fun forEachM :: "('a \<Rightarrow> 's \<Rightarrow> ('a \<times> 's) option) \<Rightarrow> 'a list \<Rightarrow> 's \<Rightarrow> ('a list \<times> 's) option" where
  "forEachM body [] s = Some ([], s)"
| "forEachM body (x # xs) s =
     (case body x s of
        None \<Rightarrow> None
      | Some (x', s1) \<Rightarrow>
          (case forEachM body xs s1 of
             None \<Rightarrow> None
           | Some (xs', s2) \<Rightarrow> Some (x' # xs', s2)))"

subsection \<open>Initialisation and spawn functions\<close>

text \<open>\<^verbatim>\<open>initPlayer\<close> assigns every field but \<^verbatim>\<open>dragOffX\<close> and \<^verbatim>\<open>dragOffY\<close>.\<close>

definition initPlayer :: "Player \<Rightarrow> Player" where
  "initPlayer p =
     p\<lparr>p_x := real_of_int SCREEN_W / 2, p_y := real_of_int PLAY_H - 200,
       p_vx := 0, p_vy := 0, p_hp := 100, p_maxHp := 100,
       p_shield := 50, p_maxShield := 50, p_shieldActive := False, p_shieldTimer := 0,
       p_score := 0, p_lives := 3, p_level := 1, p_kills := 0, p_ammo := 10, p_bombs := 3,
       p_rapidFire := False, p_rapidTimer := 0, p_shootCooldown := 0.15, p_shootTimer := 0,
       p_thrusterAnim := 0, p_invTimer := 0, p_dragging := False, p_tiltX := 0, p_tiltY := 0\<rparr>"

definition spawnExplosion :: "Game \<Rightarrow> real \<Rightarrow> real \<Rightarrow> real \<Rightarrow> Color \<Rightarrow> Game" where
  "spawnExplosion g x y sz col =
     g\<lparr>g_explosions := g_explosions g @
          [\<lparr>ex_x = x, ex_y = y, ex_radius = sz * 0.1, ex_maxRadius = sz,
            ex_life = 0.5, ex_maxLife = 0.5, ex_col = col\<rparr>],
       g_shakeTimer := 0.2, g_shakeAmt := sz * 0.5\<rparr>"

definition spawnBullet ::
  "Game \<Rightarrow> real \<Rightarrow> real \<Rightarrow> real \<Rightarrow> real \<Rightarrow> bool \<Rightarrow> Color \<Rightarrow> int \<Rightarrow> Game" where
  "spawnBullet g x y vx vy isEnemy col dmg =
     g\<lparr>g_bullets := g_bullets g @
          [\<lparr>b_x = x, b_y = y, b_vx = vx, b_vy = vy, b_active = True,
            b_isEnemy = isEnemy, b_damage = dmg, b_col = col\<rparr>]\<rparr>"

definition spawnMissile ::
  "Game \<Rightarrow> real \<Rightarrow> real \<Rightarrow> real \<Rightarrow> real \<Rightarrow> bool \<Rightarrow> int \<Rightarrow> Game option" where
  "spawnMissile g x y tx ty isEnemy dmg =
     (case normalize (tx - x) (ty - y) of
        None \<Rightarrow> None
      | Some (dx, dy) \<Rightarrow>
          Some (g\<lparr>g_missiles := g_missiles g @
                  [\<lparr>m_x = x, m_y = y, m_vx = dx * 400, m_vy = dy * 400,
                    m_targetX = tx, m_targetY = ty, m_active = True,
                    m_isEnemy = isEnemy, m_damage = dmg, m_life = 3\<rparr>]\<rparr>))"

definition spawnPowerup :: "Game \<Rightarrow> real \<Rightarrow> real \<Rightarrow> Game" where
  "spawnPowerup g x y =
     (case rand g of (r, g1) \<Rightarrow>
        g1\<lparr>g_powerups := g_powerups g1 @
             [\<lparr>pu_x = x, pu_y = y, pu_vy = 80, pu_active = True,
               pu_type = int r mod 5, pu_bob = 0\<rparr>]\<rparr>)"

text \<open>\<^verbatim>\<open>spawnEnemy\<close> declares an \<^verbatim>\<open>EnemyJet\<close> without initialising it; the
  \<^verbatim>\<open>switch\<close> has no default, so for a type outside 0..3 the fields it would have
  set keep an indeterminate value (\<open>undefined\<close>). The callers pass 0..3 only.\<close>

definition spawnEnemy :: "Game \<Rightarrow> int \<Rightarrow> Game" where
  "spawnEnemy g type =
     (case rand g of (r1, g1) \<Rightarrow>
      case rand g1 of (r2, g2) \<Rightarrow>
      let e = \<lparr>e_x = 60 + real_of_int (int r1 mod (SCREEN_W - 120)), e_y = - 80,
               e_vx = undefined, e_vy = undefined, e_active = True,
               e_hp = undefined, e_maxHp = undefined, e_type = undefined,
               e_shootTimer = undefined, e_shootInterval = undefined,
               e_moveTimer = 0, e_depth = 5 + real_of_int (int r2 mod 10),
               e_score = undefined\<rparr>;
          (e, g3) =
            (if type = 0 then
               (case rand g2 of (r3, g3) \<Rightarrow>
                  (e\<lparr>e_hp := 30, e_maxHp := 30,
                     e_vx := (if int r3 mod 2 \<noteq> 0 then 60 else - 60), e_vy := 80,
                     e_shootInterval := 1.5, e_score := 100\<rparr>, g3))
             else if type = 1 then
               (case rand g2 of (r3, g3) \<Rightarrow>
                  (e\<lparr>e_hp := 20, e_maxHp := 20,
                     e_vx := (if int r3 mod 2 \<noteq> 0 then 120 else - 120), e_vy := 160,
                     e_shootInterval := 1.0, e_score := 200\<rparr>, g3))
             else if type = 2 then
               (case rand g2 of (r3, g3) \<Rightarrow>
                  (e\<lparr>e_hp := 80, e_maxHp := 80,
                     e_vx := (if int r3 mod 2 \<noteq> 0 then 40 else - 40), e_vy := 60,
                     e_shootInterval := 0.8, e_score := 500\<rparr>, g3))
             else if type = 3 then
               (e\<lparr>e_x := real_of_int SCREEN_W / 2, e_hp := 500, e_maxHp := 500,
                  e_vx := 100, e_vy := 30, e_shootInterval := 0.4, e_score := 5000\<rparr>, g2)
             else (e, g2));
          e = e\<lparr>e_type := type\<rparr>;
          e = e\<lparr>e_shootTimer := e_shootInterval e\<rparr>
      in g3\<lparr>g_enemies := g_enemies g3 @ [e]\<rparr>)"

subsection \<open>Player actions\<close>

definition playerShoot :: "Game \<Rightarrow> Game" where
  "playerShoot g =
     (if p_shootTimer (g_player g) > 0 then g
      else
        let cd = (if p_rapidFire (g_player g) then 0.05 else p_shootCooldown (g_player g));
            g = g\<lparr>g_player := (g_player g)\<lparr>p_shootTimer := cd\<rparr>\<rparr>;
            g = spawnBullet g (p_x (g_player g) - 15) (p_y (g_player g) - 40) 0 (- 700)
                  False C_BULLET 10;
            g = spawnBullet g (p_x (g_player g) + 15) (p_y (g_player g) - 40) 0 (- 700)
                  False C_BULLET 10
        in g\<lparr>g_shakeAmt := 2, g_shakeTimer := 0.03\<rparr>)"

text \<open>The search of \<^verbatim>\<open>playerFireMissile\<close> for the nearest active enemy; the
  accumulator is \<^verbatim>\<open>(nearDist, tx, ty)\<close>.\<close>

fun nearestTarget ::
  "real \<Rightarrow> real \<Rightarrow> EnemyJet list \<Rightarrow> real \<times> real \<times> real \<Rightarrow> real \<times> real \<times> real" where
  "nearestTarget px py [] acc = acc"
| "nearestTarget px py (e # es) (nearDist, tx, ty) =
     (if \<not> e_active e then nearestTarget px py es (nearDist, tx, ty)
      else
        let d = dist2D px py (e_x e) (e_y e) in
        if d < nearDist then nearestTarget px py es (d, e_x e, e_y e)
        else nearestTarget px py es (nearDist, tx, ty))"

definition playerFireMissile :: "Game \<Rightarrow> Game option" where
  "playerFireMissile g =
     (if p_ammo (g_player g) \<le> 0 then Some g
      else
        let g = g\<lparr>g_player := (g_player g)\<lparr>p_ammo := p_ammo (g_player g) - 1\<rparr>\<rparr>;
            p = g_player g
        in (case nearestTarget (p_x p) (p_y p) (g_enemies g) (9999, p_x p, - 100) of
              (nearDist, tx, ty) \<Rightarrow> spawnMissile g (p_x p) (p_y p - 40) tx ty False 50))"

text \<open>The body of the loop of \<^verbatim>\<open>playerBomb\<close> over the enemies.\<close>

definition bombEnemy :: "EnemyJet \<Rightarrow> Game \<Rightarrow> EnemyJet \<times> Game" where
  "bombEnemy e g =
     (if \<not> e_active e then (e, g)
      else
        let e = e\<lparr>e_hp := e_hp e - 150\<rparr>;
            g = spawnExplosion g (e_x e) (e_y e) 60 C_FIRE
        in if e_hp e \<le> 0 then
             let e = e\<lparr>e_active := False\<rparr>;
                 g = g\<lparr>g_player := (g_player g)\<lparr>p_score := p_score (g_player g) + e_score e\<rparr>\<rparr>;
                 g = g\<lparr>g_player := (g_player g)\<lparr>p_kills := p_kills (g_player g) + 1\<rparr>\<rparr>;
                 g = g\<lparr>g_combo := g_combo g + 1\<rparr>;
                 g = g\<lparr>g_comboTimer := 2\<rparr>
             in (e, g)
           else (e, g))"

definition playerBomb :: "Game \<Rightarrow> Game" where
  "playerBomb g =
     (if p_bombs (g_player g) \<le> 0 then g
      else
        let g = g\<lparr>g_player := (g_player g)\<lparr>p_bombs := p_bombs (g_player g) - 1\<rparr>\<rparr>
        in (case forEach bombEnemy (g_enemies g) g of
              (es, g) \<Rightarrow>
                let g = g\<lparr>g_enemies := es\<rparr>;
                    g = g\<lparr>g_shakeAmt := 20\<rparr>;
                    g = g\<lparr>g_shakeTimer := 0.5\<rparr>
                in spawnExplosion g (real_of_int (SCREEN_W sdiv 2)) (real_of_int (PLAY_H sdiv 2))
                     300 C_PURPLE))"


subsection \<open>The per-frame update\<close>

text \<open>\<^verbatim>\<open>updateGame\<close> is one long function. Each of its commented blocks is a
  definition here, in the order of the source, and \<open>updateGame\<close> composes them. The
  source reads \<^verbatim>\<open>float dt = g.dt\<close> once and never assigns \<^verbatim>\<open>g.dt\<close>, so every
  block reads \<open>g_dt g\<close>; \<^verbatim>\<open>Player& p = g.player\<close> is a reference, so every read of
  \<^verbatim>\<open>p\<close> is a read of the current \<open>g_player g\<close>.\<close>

definition timers :: "Game \<Rightarrow> Game" where
  "timers g =
     (let dt = g_dt g;
          p = g_player g;
          p = p\<lparr>p_shootTimer := max 0 (p_shootTimer p - dt)\<rparr>;
          p = p\<lparr>p_invTimer := max 0 (p_invTimer p - dt)\<rparr>;
          p = p\<lparr>p_rapidTimer := max 0 (p_rapidTimer p - dt)\<rparr>;
          p = (if p_rapidTimer p \<le> 0 then p\<lparr>p_rapidFire := False\<rparr> else p);
          p = p\<lparr>p_thrusterAnim := p_thrusterAnim p + dt\<rparr>;
          p = p\<lparr>p_tiltX := clamp (p_tiltX p * 0.9) (- 1) 1\<rparr>;
          g = g\<lparr>g_player := p\<rparr>;
          g = g\<lparr>g_shakeTimer := max 0 (g_shakeTimer g - dt)\<rparr>;
          g = g\<lparr>g_comboTimer := max 0 (g_comboTimer g - dt)\<rparr>;
          g = (if g_comboTimer g \<le> 0 then g\<lparr>g_combo := 0\<rparr> else g)
      in g\<lparr>g_gameTime := g_gameTime g + dt\<rparr>)"

definition playerMovement :: "Game \<Rightarrow> Game" where
  "playerMovement g =
     (let dt = g_dt g;
          p = g_player g;
          p = (if p_dragging p then
                 let dx = real_of_int (g_touchX g) - p_x p;
                     dy = real_of_int (g_touchY g) - p_y p;
                     p = p\<lparr>p_tiltX := clamp (dx / 100) (- 1) 1\<rparr>;
                     p = p\<lparr>p_x := p_x p + dx * dt * 8\<rparr>
                 in p\<lparr>p_y := p_y p + dy * dt * 8\<rparr>
               else p);
          p = p\<lparr>p_x := clamp (p_x p) 40 (real_of_int (SCREEN_W - 40))\<rparr>;
          p = p\<lparr>p_y := clamp (p_y p) 60 (real_of_int (PLAY_H - 80))\<rparr>
      in g\<lparr>g_player := p\<rparr>)"

definition autoFire :: "Game \<Rightarrow> Game" where
  "autoFire g = (if p_dragging (g_player g) then playerShoot g else g)"

definition scrollStar :: "real \<Rightarrow> Star \<Rightarrow> Game \<Rightarrow> Star \<times> Game" where
  "scrollStar dt s g =
     (let s = s\<lparr>s_y := s_y s + s_speed s * dt\<rparr> in
      if s_y s > real_of_int PLAY_H then
        (case rand g of (r, g1) \<Rightarrow>
           (s\<lparr>s_y := 0, s_x := real_of_int (int r mod SCREEN_W)\<rparr>, g1))
      else (s, g))"

definition scrollCloud :: "real \<Rightarrow> Cloud \<Rightarrow> Game \<Rightarrow> Cloud \<times> Game" where
  "scrollCloud dt c g =
     (let c = c\<lparr>c_y := c_y c + c_speed c * dt\<rparr> in
      if c_y c > real_of_int PLAY_H then
        (case rand g of (r, g1) \<Rightarrow>
           (c\<lparr>c_y := - c_h c, c_x := real_of_int (int r mod SCREEN_W)\<rparr>, g1))
      else (c, g))"

definition scrollMountain :: "real \<Rightarrow> Mountain \<Rightarrow> Game \<Rightarrow> Mountain \<times> Game" where
  "scrollMountain dt m g =
     (let m = m\<lparr>mt_x := mt_x m - mt_speed m * dt\<rparr> in
      if mt_x m < - 100 then
        (case rand g of (r, g1) \<Rightarrow>
           (m\<lparr>mt_x := real_of_int (SCREEN_W + 50),
              mt_h := real_of_int (100 + int r mod 150)\<rparr>, g1))
      else (m, g))"

definition backgroundScroll :: "Game \<Rightarrow> Game" where
  "backgroundScroll g =
     (let dt = g_dt g in
      case forEach (scrollStar dt) (g_stars g) g of (ss, g) \<Rightarrow>
      let g = g\<lparr>g_stars := ss\<rparr> in
      case forEach (scrollCloud dt) (g_clouds g) g of (cs, g) \<Rightarrow>
      let g = g\<lparr>g_clouds := cs\<rparr> in
      case forEach (scrollMountain dt) (g_mountains g) g of (ms, g) \<Rightarrow>
      g\<lparr>g_mountains := ms\<rparr>)"

definition enemySpawning :: "Game \<Rightarrow> Game" where
  "enemySpawning g =
     (let dt = g_dt g;
          g = g\<lparr>g_enemySpawnTimer := g_enemySpawnTimer g + dt\<rparr>;
          spawnInt = max 0.5 (g_enemySpawnInterval g - g_gameTime g * 0.02)
      in if g_enemySpawnTimer g \<ge> spawnInt then
           let g = g\<lparr>g_enemySpawnTimer := 0\<rparr>;
               (type, g) =
                 (if g_gameTime g > 60 then (case rand g of (r, g1) \<Rightarrow> (int r mod 3, g1))
                  else if g_gameTime g > 30 then (case rand g of (r, g1) \<Rightarrow> (int r mod 2, g1))
                  else (0, g))
           in if \<not> g_bossAlive g then spawnEnemy g type else g
         else g)"

definition bossSpawn :: "Game \<Rightarrow> Game" where
  "bossSpawn g =
     (if g_gameTime g > 90 \<and> \<not> g_bossAlive g then
        let g = g\<lparr>g_bossAlive := True\<rparr> in spawnEnemy g 3
      else g)"

definition powerupSpawning :: "Game \<Rightarrow> Game" where
  "powerupSpawning g =
     (let dt = g_dt g;
          g = g\<lparr>g_powerupSpawnTimer := g_powerupSpawnTimer g + dt\<rparr>
      in if g_powerupSpawnTimer g > 12 then
           let g = g\<lparr>g_powerupSpawnTimer := 0\<rparr> in
           (case rand g of (r, g1) \<Rightarrow>
              spawnPowerup g1 (real_of_int (60 + int r mod (SCREEN_W - 120))) (- 50))
         else g)"


subsubsection \<open>Bullets\<close>

text \<open>The body of the inner loop over the enemies, for a player bullet. The loop has
  no \<^verbatim>\<open>break\<close> and does not test \<^verbatim>\<open>b.active\<close>: its state is the bullet and the
  game.\<close>

definition bulletVsEnemy :: "EnemyJet \<Rightarrow> Bullet \<times> Game \<Rightarrow> EnemyJet \<times> (Bullet \<times> Game)" where
  "bulletVsEnemy e bg =
     (case bg of (b, g) \<Rightarrow>
      if \<not> e_active e then (e, (b, g))
      else
        let hitR = (if e_type e = 3 then 50 else 30 :: int) in
        if dist2D (b_x b) (b_y b) (e_x e) (e_y e) < real_of_int hitR then
          let b = b\<lparr>b_active := False\<rparr>;
              e = e\<lparr>e_hp := e_hp e - b_damage b\<rparr>;
              g = spawnExplosion g (b_x b) (b_y b) 20 C_FIRE
          in if e_hp e \<le> 0 then
               let e = e\<lparr>e_active := False\<rparr>;
                   g = g\<lparr>g_player := (g_player g)
                         \<lparr>p_score := p_score (g_player g) + e_score e * (1 + g_combo g sdiv 5)\<rparr>\<rparr>;
                   g = g\<lparr>g_player := (g_player g)\<lparr>p_kills := p_kills (g_player g) + 1\<rparr>\<rparr>;
                   g = g\<lparr>g_combo := g_combo g + 1\<rparr>;
                   g = g\<lparr>g_comboTimer := 2\<rparr>;
                   g = (if e_type e = 3 then
                          let g = g\<lparr>g_bossAlive := False\<rparr> in
                          g\<lparr>g_player := (g_player g)\<lparr>p_level := p_level (g_player g) + 1\<rparr>\<rparr>
                        else g);
                   g = spawnExplosion g (e_x e) (e_y e) (if e_type e = 3 then 120 else 50) C_FIRE
               in (case rand g of (r, g1) \<Rightarrow>
                     (e, (b, if int r mod 3 = 0 then spawnPowerup g1 (e_x e) (e_y e) else g1)))
             else (e, (b, g))
        else (e, (b, g)))"

text \<open>The \<^verbatim>\<open>else\<close> branch: an enemy bullet against the player.\<close>

definition bulletVsPlayer :: "Bullet \<Rightarrow> Game \<Rightarrow> Bullet \<times> Game" where
  "bulletVsPlayer b g =
     (if p_invTimer (g_player g) \<le> 0 \<and>
         dist2D (b_x b) (b_y b) (p_x (g_player g)) (p_y (g_player g)) < 30 then
        let b = b\<lparr>b_active := False\<rparr>;
            p = g_player g;
            p = (if p_shieldActive p \<and> p_shield p > 0 then
                   let p = p\<lparr>p_shield := p_shield p - b_damage b\<rparr> in
                   if p_shield p < 0 then p\<lparr>p_shield := 0\<rparr> else p
                 else p\<lparr>p_hp := p_hp p - b_damage b\<rparr>);
            p = p\<lparr>p_invTimer := 0.5\<rparr>;
            g = g\<lparr>g_player := p\<rparr>;
            g = spawnExplosion g (p_x (g_player g)) (p_y (g_player g)) 25 (Color 100 100 255 255)
        in if p_hp (g_player g) \<le> 0 then
             let g = g\<lparr>g_player := (g_player g)\<lparr>p_lives := p_lives (g_player g) - 1\<rparr>\<rparr> in
             if p_lives (g_player g) \<le> 0 then
               let g = (if p_score (g_player g) > g_highScore g
                        then g\<lparr>g_highScore := p_score (g_player g)\<rparr> else g);
                   g = g\<lparr>g_state := STATE_GAMEOVER\<rparr>
               in (b, g\<lparr>g_gameoverTimer := 0\<rparr>)
             else
               let g = g\<lparr>g_player := (g_player g)\<lparr>p_hp := p_maxHp (g_player g)\<rparr>\<rparr> in
               (b, g\<lparr>g_player := (g_player g)\<lparr>p_invTimer := 3\<rparr>\<rparr>)
           else (b, g)
      else (b, g))"

text \<open>The body of the loop over the bullets. A bullet that leaves the screen is
  deactivated and still tested for hits in this frame.\<close>

definition updateBullet :: "Bullet \<Rightarrow> Game \<Rightarrow> Bullet \<times> Game" where
  "updateBullet b g =
     (if \<not> b_active b then (b, g)
      else
        let dt = g_dt g;
            b = b\<lparr>b_x := b_x b + b_vx b * dt\<rparr>;
            b = b\<lparr>b_y := b_y b + b_vy b * dt\<rparr>;
            b = (if b_y b < - 20 \<or> b_y b > real_of_int (PLAY_H + 20) \<or>
                    b_x b < - 20 \<or> b_x b > real_of_int (SCREEN_W + 20)
                 then b\<lparr>b_active := False\<rparr> else b)
        in if \<not> b_isEnemy b then
             (case forEach bulletVsEnemy (g_enemies g) (b, g) of
                (es, (b, g)) \<Rightarrow> (b, g\<lparr>g_enemies := es\<rparr>))
           else bulletVsPlayer b g)"

definition updateBullets :: "Game \<Rightarrow> Game" where
  "updateBullets g =
     (case forEach updateBullet (g_bullets g) g of (bs, g) \<Rightarrow> g\<lparr>g_bullets := bs\<rparr>)"

subsubsection \<open>Missiles\<close>

text \<open>The search of the homing block for the nearest active enemy; the accumulator is
  \<^verbatim>\<open>(nearD, target)\<close>, the pointer \<^verbatim>\<open>target\<close> being \<open>None\<close> for
  \<^verbatim>\<open>nullptr\<close>.\<close>

fun nearestEnemy ::
  "real \<Rightarrow> real \<Rightarrow> EnemyJet list \<Rightarrow> real \<times> EnemyJet option \<Rightarrow> real \<times> EnemyJet option" where
  "nearestEnemy mx my [] acc = acc"
| "nearestEnemy mx my (e # es) (nearD, target) =
     (if \<not> e_active e then nearestEnemy mx my es (nearD, target)
      else
        let d = dist2D mx my (e_x e) (e_y e) in
        if d < nearD then nearestEnemy mx my es (d, Some e)
        else nearestEnemy mx my es (nearD, target))"

definition homing :: "real \<Rightarrow> Missile \<Rightarrow> EnemyJet list \<Rightarrow> Missile option" where
  "homing dt m es =
     (if \<not> m_isEnemy m \<and> es \<noteq> [] then
        (case nearestEnemy (m_x m) (m_y m) es (9999, None) of
           (nearD, None) \<Rightarrow> Some m
         | (nearD, Some target) \<Rightarrow>
             (case normalize (e_x target - m_x m) (e_y target - m_y m) of
                None \<Rightarrow> None
              | Some (dx, dy) \<Rightarrow>
                  let m = m\<lparr>m_vx := lerp (m_vx m) (dx * 500) (dt * 3)\<rparr> in
                  Some (m\<lparr>m_vy := lerp (m_vy m) (dy * 500) (dt * 3)\<rparr>)))
      else Some m)"

text \<open>The body of the hit detection loop over the enemies, for a player missile.\<close>

definition missileVsEnemy :: "EnemyJet \<Rightarrow> Missile \<times> Game \<Rightarrow> EnemyJet \<times> (Missile \<times> Game)" where
  "missileVsEnemy e mg =
     (case mg of (m, g) \<Rightarrow>
      if \<not> e_active e then (e, (m, g))
      else
        let hitR = (if e_type e = 3 then 60 else 35 :: int) in
        if dist2D (m_x m) (m_y m) (e_x e) (e_y e) < real_of_int hitR then
          let m = m\<lparr>m_active := False\<rparr>;
              e = e\<lparr>e_hp := e_hp e - m_damage m\<rparr>;
              g = spawnExplosion g (m_x m) (m_y m) 60 C_FIRE
          in if e_hp e \<le> 0 then
               let e = e\<lparr>e_active := False\<rparr>;
                   g = g\<lparr>g_player := (g_player g)
                         \<lparr>p_score := p_score (g_player g) + e_score e * 2\<rparr>\<rparr>;
                   g = g\<lparr>g_player := (g_player g)\<lparr>p_kills := p_kills (g_player g) + 1\<rparr>\<rparr>;
                   g = (if e_type e = 3 then g\<lparr>g_bossAlive := False\<rparr> else g)
               in (case rand g of (r, g1) \<Rightarrow>
                     (e, (m, if int r mod 2 = 0 then spawnPowerup g1 (e_x e) (e_y e) else g1)))
             else (e, (m, g))
        else (e, (m, g)))"

definition missileVsPlayer :: "Missile \<Rightarrow> Game \<Rightarrow> Missile \<times> Game" where
  "missileVsPlayer m g =
     (if p_invTimer (g_player g) \<le> 0 \<and>
         dist2D (m_x m) (m_y m) (p_x (g_player g)) (p_y (g_player g)) < 35 then
        let m = m\<lparr>m_active := False\<rparr>;
            g = g\<lparr>g_player := (g_player g)\<lparr>p_hp := p_hp (g_player g) - m_damage m\<rparr>\<rparr>;
            g = g\<lparr>g_player := (g_player g)\<lparr>p_invTimer := 1\<rparr>\<rparr>;
            g = spawnExplosion g (p_x (g_player g)) (p_y (g_player g)) 60 (Color 100 100 255 255)
        in if p_hp (g_player g) \<le> 0 then
             let g = g\<lparr>g_player := (g_player g)\<lparr>p_lives := p_lives (g_player g) - 1\<rparr>\<rparr> in
             if p_lives (g_player g) \<le> 0 then
               let g = g\<lparr>g_state := STATE_GAMEOVER\<rparr> in (m, g\<lparr>g_gameoverTimer := 0\<rparr>)
             else
               let g = g\<lparr>g_player := (g_player g)\<lparr>p_hp := p_maxHp (g_player g)\<rparr>\<rparr> in
               (m, g\<lparr>g_player := (g_player g)\<lparr>p_invTimer := 3\<rparr>\<rparr>)
           else (m, g)
      else (m, g))"

text \<open>The body of the loop over the missiles.\<close>

definition updateMissile :: "Missile \<Rightarrow> Game \<Rightarrow> (Missile \<times> Game) option" where
  "updateMissile m g =
     (if \<not> m_active m then Some (m, g)
      else
        let dt = g_dt g;
            m = m\<lparr>m_life := m_life m - dt\<rparr>
        in if m_life m \<le> 0 then Some (m\<lparr>m_active := False\<rparr>, g)
           else
             (case homing dt m (g_enemies g) of
                None \<Rightarrow> None
              | Some m \<Rightarrow>
                  let m = m\<lparr>m_x := m_x m + m_vx m * dt\<rparr>;
                      m = m\<lparr>m_y := m_y m + m_vy m * dt\<rparr>;
                      (m, g) =
                        (if \<not> m_isEnemy m then
                           (case forEach missileVsEnemy (g_enemies g) (m, g) of
                              (es, (m, g)) \<Rightarrow> (m, g\<lparr>g_enemies := es\<rparr>))
                         else missileVsPlayer m g)
                  in if m_y m < - 50 \<or> m_y m > real_of_int (PLAY_H + 50) \<or>
                        m_x m < - 50 \<or> m_x m > real_of_int (SCREEN_W + 50)
                     then Some (m\<lparr>m_active := False\<rparr>, g)
                     else Some (m, g)))"

definition updateMissiles :: "Game \<Rightarrow> Game option" where
  "updateMissiles g =
     (case forEachM updateMissile (g_missiles g) g of
        None \<Rightarrow> None
      | Some (ms, g) \<Rightarrow> Some (g\<lparr>g_missiles := ms\<rparr>))"


subsubsection \<open>Enemies\<close>

text \<open>The spread of five bullets a boss fires after 60 seconds, \<^verbatim>\<open>i\<close> from -2 to 2.\<close>

fun bossSpread :: "int list \<Rightarrow> EnemyJet \<Rightarrow> real \<Rightarrow> real \<Rightarrow> Game \<Rightarrow> Game" where
  "bossSpread [] e dx dy g = g"
| "bossSpread (i # is) e dx dy g =
     (let a = atan2f dy dx + real_of_int i * 0.3 in
      bossSpread is e dx dy
        (spawnBullet g (e_x e) (e_y e) (cos a * 300) (sin a * 300) True (Color 255 100 0 255) 15))"

text \<open>The shooting block of an enemy whose timer has run out.\<close>

definition enemyShoot :: "EnemyJet \<Rightarrow> Game \<Rightarrow> (EnemyJet \<times> Game) option" where
  "enemyShoot e g =
     (let e = e\<lparr>e_shootTimer := e_shootInterval e\<rparr>;
          p = g_player g
      in case normalize (p_x p - e_x e) (p_y p - e_y e) of
           None \<Rightarrow> None
         | Some (dx, dy) \<Rightarrow>
             let spd = (if e_type e = 3 then 350 else 250);
                 g = spawnBullet g (e_x e) (e_y e) (dx * spd) (dy * spd) True
                       (Color 255 50 50 255) (if e_type e = 3 then 20 else 10);
                 g = (if e_type e = 3 \<and> g_gameTime g > 60
                      then bossSpread [- 2, - 1, 0, 1, 2] e dx dy g else g)
             in if e_type e = 2 then
                  (case rand g of (r, g1) \<Rightarrow>
                     if int r mod 3 = 0 then
                       (case spawnMissile g1 (e_x e) (e_y e) (p_x p) (p_y p) True 25 of
                          None \<Rightarrow> None
                        | Some g2 \<Rightarrow> Some (e, g2))
                     else Some (e, g1))
                else Some (e, g))"

text \<open>The movement block of an enemy: the bounded patrol of a boss, free fall with a
  bounce off the walls and a wave for the others. The source calls the unqualified
  \<^verbatim>\<open>abs\<close> on the float \<^verbatim>\<open>e.vy\<close>; it is modelled as the absolute value.\<close>

definition enemyMovement :: "real \<Rightarrow> EnemyJet \<Rightarrow> EnemyJet" where
  "enemyMovement dt e =
     (if e_type e = 3 then
        let e = e\<lparr>e_x := e_x e + e_vx e * dt\<rparr>;
            e = e\<lparr>e_y := e_y e + e_vy e * dt * 0.2\<rparr>;
            e = (if e_x e < 80 \<or> e_x e > real_of_int (SCREEN_W - 80)
                 then e\<lparr>e_vx := - e_vx e\<rparr> else e);
            e = (if e_y e > 200 then e\<lparr>e_vy := - \<bar>e_vy e\<bar>\<rparr> else e)
        in if e_y e < 50 then e\<lparr>e_vy := \<bar>e_vy e\<bar>\<rparr> else e
      else
        let e = e\<lparr>e_x := e_x e + e_vx e * dt\<rparr>;
            e = e\<lparr>e_y := e_y e + e_vy e * dt\<rparr>;
            e = (if e_x e < 30 \<or> e_x e > real_of_int (SCREEN_W - 30)
                 then e\<lparr>e_vx := - e_vx e\<rparr> else e)
        in e\<lparr>e_x := e_x e + sin (e_moveTimer e * 2) * 30 * dt\<rparr>)"

text \<open>The body of the loop over the enemies.\<close>

definition updateEnemy :: "EnemyJet \<Rightarrow> Game \<Rightarrow> (EnemyJet \<times> Game) option" where
  "updateEnemy e g =
     (if \<not> e_active e then Some (e, g)
      else
        let dt = g_dt g;
            e = e\<lparr>e_moveTimer := e_moveTimer e + dt\<rparr>;
            e = enemyMovement dt e
        in if e_y e > real_of_int (PLAY_H + 100) then Some (e\<lparr>e_active := False\<rparr>, g)
           else
             let e = e\<lparr>e_shootTimer := e_shootTimer e - dt\<rparr> in
             if e_shootTimer e \<le> 0 then enemyShoot e g else Some (e, g))"

definition updateEnemies :: "Game \<Rightarrow> Game option" where
  "updateEnemies g =
     (case forEachM updateEnemy (g_enemies g) g of
        None \<Rightarrow> None
      | Some (es, g) \<Rightarrow> Some (g\<lparr>g_enemies := es\<rparr>))"

subsubsection \<open>Explosions, cleanup, powerups, shield and level\<close>

definition updateExplosion :: "real \<Rightarrow> Explosion \<Rightarrow> Explosion option" where
  "updateExplosion dt ex =
     (let ex = ex\<lparr>ex_life := ex_life ex - dt\<rparr> in
      case fdiv (ex_life ex) (ex_maxLife ex) of
        None \<Rightarrow> None
      | Some q \<Rightarrow> let t = 1 - q in Some (ex\<lparr>ex_radius := ex_maxRadius ex * t\<rparr>))"

definition updateExplosions :: "Game \<Rightarrow> Game option" where
  "updateExplosions g =
     (case those (map (updateExplosion (g_dt g)) (g_explosions g)) of
        None \<Rightarrow> None
      | Some exs \<Rightarrow> Some (g\<lparr>g_explosions := filter (\<lambda>e. \<not> ex_life e \<le> 0) exs\<rparr>))"

definition cleanup :: "Game \<Rightarrow> Game" where
  "cleanup g =
     (let g = g\<lparr>g_bullets := filter (\<lambda>b. \<not> \<not> b_active b) (g_bullets g)\<rparr>;
          g = g\<lparr>g_missiles := filter (\<lambda>m. \<not> \<not> m_active m) (g_missiles g)\<rparr>
      in g\<lparr>g_enemies := filter (\<lambda>e. \<not> \<not> e_active e) (g_enemies g)\<rparr>)"

text \<open>The body of the loop over the powerups; the \<^verbatim>\<open>switch\<close> on the type has no
  default.\<close>

definition updatePowerup :: "PowerUp \<Rightarrow> Game \<Rightarrow> PowerUp \<times> Game" where
  "updatePowerup pu g =
     (if \<not> pu_active pu then (pu, g)
      else
        let dt = g_dt g;
            pu = pu\<lparr>pu_y := pu_y pu + pu_vy pu * dt\<rparr>;
            pu = pu\<lparr>pu_bob := pu_bob pu + dt\<rparr>
        in if pu_y pu > real_of_int (PLAY_H + 50) then (pu\<lparr>pu_active := False\<rparr>, g)
           else if dist2D (pu_x pu) (pu_y pu) (p_x (g_player g)) (p_y (g_player g)) < 40 then
             let pu = pu\<lparr>pu_active := False\<rparr>;
                 p = g_player g;
                 p = (if pu_type pu = 0 then p\<lparr>p_hp := min (p_maxHp p) (p_hp p + 30)\<rparr>
                      else if pu_type pu = 1 then
                        let p = p\<lparr>p_shield := min (p_maxShield p) (p_shield p + 30)\<rparr>;
                            p = p\<lparr>p_shieldActive := True\<rparr>
                        in p\<lparr>p_shieldTimer := 5\<rparr>
                      else if pu_type pu = 2 then
                        let p = p\<lparr>p_rapidFire := True\<rparr> in p\<lparr>p_rapidTimer := 8\<rparr>
                      else if pu_type pu = 3 then p\<lparr>p_ammo := p_ammo p + 5\<rparr>
                      else if pu_type pu = 4 then p\<lparr>p_bombs := p_bombs p + 1\<rparr>
                      else p);
                 g = g\<lparr>g_player := p\<rparr>;
                 g = spawnExplosion g (pu_x pu) (pu_y pu) 30 C_GREEN
             in (pu, g\<lparr>g_player := (g_player g)\<lparr>p_score := p_score (g_player g) + 50\<rparr>\<rparr>)
           else (pu, g))"

definition updatePowerups :: "Game \<Rightarrow> Game" where
  "updatePowerups g =
     (case forEach updatePowerup (g_powerups g) g of
        (pus, g) \<Rightarrow> g\<lparr>g_powerups := filter (\<lambda>p. \<not> \<not> pu_active p) pus\<rparr>)"

definition shieldTimer :: "Game \<Rightarrow> Game" where
  "shieldTimer g =
     (let p = g_player g;
          p = p\<lparr>p_shieldTimer := p_shieldTimer p - g_dt g\<rparr>;
          p = (if p_shieldTimer p \<le> 0 then p\<lparr>p_shieldActive := False\<rparr> else p)
      in g\<lparr>g_player := p\<rparr>)"

definition levelProgression :: "Game \<Rightarrow> Game" where
  "levelProgression g =
     g\<lparr>g_player := (g_player g)\<lparr>p_level := 1 + float_to_int (g_gameTime g / 30)\<rparr>\<rparr>"

subsubsection \<open>The whole frame\<close>

text \<open>The blocks before the missiles never divide by a variable.\<close>

definition beforeMissiles :: "Game \<Rightarrow> Game" where
  "beforeMissiles g =
     updateBullets (powerupSpawning (bossSpawn (enemySpawning (backgroundScroll
       (autoFire (playerMovement (timers g)))))))"

definition afterExplosions :: "Game \<Rightarrow> Game" where
  "afterExplosions g = levelProgression (shieldTimer (updatePowerups (cleanup g)))"

definition updateGame :: "Game \<Rightarrow> Game option" where
  "updateGame g =
     (case updateMissiles (beforeMissiles g) of
        None \<Rightarrow> None
      | Some g1 \<Rightarrow>
          (case updateEnemies g1 of
             None \<Rightarrow> None
           | Some g2 \<Rightarrow>
               (case updateExplosions g2 of
                  None \<Rightarrow> None
                | Some g3 \<Rightarrow> Some (afterExplosions g3))))"


subsection \<open>Invariants of the player's counters\<close>

text \<open>The bounds the code keeps on the counters of the player: health has an upper
  bound only, the shield is kept between 0 and its maximum, ammo, bombs and lives have a
  lower bound only.\<close>

definition counters_ok :: "Player \<Rightarrow> bool" where
  "counters_ok p =
     (p_hp p \<le> p_maxHp p \<and> 0 \<le> p_shield p \<and> p_shield p \<le> p_maxShield p \<and>
      0 \<le> p_ammo p \<and> 0 \<le> p_bombs p \<and> 0 \<le> p_lives p)"

text \<open>Inside a frame: while the session is playing the craft has health and a life
  left; once the session has ended in this frame the invulnerability window is open.\<close>

definition alive_ok :: "Game \<Rightarrow> bool" where
  "alive_ok g =
     (if g_state g = STATE_PLAYING then 0 < p_hp (g_player g) \<and> 1 \<le> p_lives (g_player g)
      else 0 < p_invTimer (g_player g))"

text \<open>No projectile heals, and every explosion has a non-zero total life.\<close>

definition pools_ok :: "Game \<Rightarrow> bool" where
  "pools_ok g =
     (list_all (\<lambda>b. 0 \<le> b_damage b) (g_bullets g) \<and>
      list_all (\<lambda>m. 0 \<le> m_damage m) (g_missiles g) \<and>
      list_all (\<lambda>ex. ex_maxLife ex \<noteq> 0) (g_explosions g))"

definition frame_ok :: "Game \<Rightarrow> bool" where
  "frame_ok g = (counters_ok (g_player g) \<and> alive_ok g \<and> pools_ok g)"

text \<open>Between frames.\<close>

definition session_ok :: "Game \<Rightarrow> bool" where
  "session_ok g =
     (counters_ok (g_player g) \<and>
      (if g_state g = STATE_PLAYING then 0 < p_hp (g_player g) \<and> 1 \<le> p_lives (g_player g)
       else True) \<and>
      pools_ok g)"

subsection \<open>Concrete states\<close>

text \<open>A session that has just started: the state \<^verbatim>\<open>main\<close> builds
  (\<^verbatim>\<open>Game game; initPlayer(game.player)\<close>) after the first tap, with a frame time of
  20 ms, an empty background and a generator that returns 0.\<close>

definition blankPlayer :: Player where
  "blankPlayer =
     \<lparr>p_x = 0, p_y = 0, p_vx = 0, p_vy = 0, p_hp = 0, p_maxHp = 0, p_shield = 0,
      p_maxShield = 0, p_shieldActive = False, p_shieldTimer = 0, p_score = 0, p_lives = 0,
      p_level = 0, p_kills = 0, p_ammo = 0, p_bombs = 0, p_rapidFire = False,
      p_rapidTimer = 0, p_shootCooldown = 0, p_shootTimer = 0, p_thrusterAnim = 0,
      p_invTimer = 0, p_dragging = False, p_dragOffX = 0, p_dragOffY = 0, p_tiltX = 0,
      p_tiltY = 0\<rparr>"

definition session0 :: Game where
  "session0 =
     \<lparr>g_state = STATE_PLAYING, g_player = initPlayer blankPlayer,
      g_bullets = [], g_missiles = [], g_explosions = [], g_powerups = [], g_enemies = [],
      g_stars = [], g_clouds = [], g_mountains = [], g_dt = 0.02, g_gameTime = 0,
      g_enemySpawnTimer = 0, g_enemySpawnInterval = 2, g_powerupSpawnTimer = 0,
      g_bossAlive = False, g_gameoverTimer = 0, g_combo = 0, g_comboTimer = 0,
      g_highScore = 0, g_shakeTimer = 0, g_shakeAmt = 0, g_touchX = 360, g_touchY = 640,
      g_rng = (\<lambda>n. 0)\<rparr>"

text \<open>An enemy as \<^verbatim>\<open>spawnEnemy\<close> makes it, later at \<open>(x, y)\<close> with \<open>hp\<close> hit
  points left.\<close>

definition enemyAt :: "int \<Rightarrow> real \<Rightarrow> real \<Rightarrow> int \<Rightarrow> EnemyJet" where
  "enemyAt type x y hp =
     (last (g_enemies (spawnEnemy session0 type)))\<lparr>e_x := x, e_y := y, e_hp := hp\<rparr>"

text \<open>A bullet of \<^verbatim>\<open>playerShoot\<close>, a bullet of a basic enemy flying straight down,
  a missile of \<^verbatim>\<open>playerFireMissile\<close> flying straight up and a missile of a heavy enemy
  flying straight down, at \<open>(x, y)\<close>.\<close>

definition playerBullet :: "real \<Rightarrow> real \<Rightarrow> Bullet" where
  "playerBullet x y =
     \<lparr>b_x = x, b_y = y, b_vx = 0, b_vy = - 700, b_active = True, b_isEnemy = False,
      b_damage = 10, b_col = C_BULLET\<rparr>"

definition enemyBullet :: "real \<Rightarrow> real \<Rightarrow> Bullet" where
  "enemyBullet x y =
     \<lparr>b_x = x, b_y = y, b_vx = 0, b_vy = 250, b_active = True, b_isEnemy = True,
      b_damage = 10, b_col = Color 255 50 50 255\<rparr>"

definition playerMissile :: "real \<Rightarrow> real \<Rightarrow> Missile" where
  "playerMissile x y =
     \<lparr>m_x = x, m_y = y, m_vx = 0, m_vy = - 400, m_targetX = x, m_targetY = - 100,
      m_active = True, m_isEnemy = False, m_damage = 50, m_life = 2\<rparr>"

definition enemyMissile :: "real \<Rightarrow> real \<Rightarrow> Missile" where
  "enemyMissile x y =
     \<lparr>m_x = x, m_y = y, m_vx = 0, m_vy = 400, m_targetX = x, m_targetY = 1080,
      m_active = True, m_isEnemy = True, m_damage = 25, m_life = 2\<rparr>"

text \<open>The player has fired all ten missiles.\<close>

definition outOfAmmo :: Game where
  "outOfAmmo = session0\<lparr>g_player := (g_player session0)\<lparr>p_ammo := 0\<rparr>\<rparr>"

text \<open>A basic enemy and a boss on screen.\<close>

definition bombScene :: Game where
  "bombScene = session0\<lparr>g_enemies := [enemyAt 0 200 300 30, enemyAt 3 360 100 500],
                        g_gameTime := 100, g_bossAlive := True, g_combo := 7\<rparr>"

text \<open>Two basic enemies 20 apart and a player bullet that reaches \<open>(200, 293)\<close> in
  this frame, between them.\<close>

definition twoInRange :: Game where
  "twoInRange = session0\<lparr>g_enemies := [enemyAt 0 190 300 30, enemyAt 0 210 300 30],
                         g_bullets := [playerBullet 200 307]\<rparr>"

text \<open>Two basic enemies 10 apart and a player missile below them.\<close>

definition twoInBlast :: Game where
  "twoInBlast = session0\<lparr>g_enemies := [enemyAt 0 200 300 30, enemyAt 0 200 310 30],
                         g_missiles := [playerMissile 200 330]\<rparr>"

text \<open>A boss with 10 hit points left, 100 seconds into the session, and a player
  bullet that reaches it in this frame.\<close>

definition bossFight :: Game where
  "bossFight = session0\<lparr>g_gameTime := 100, g_bossAlive := True,
                        g_enemies := [enemyAt 3 360 100 10],
                        g_bullets := [playerBullet 360 114],
                        g_player := (g_player session0)\<lparr>p_level := 4\<rparr>\<rparr>"

text \<open>The last life, 25 health, a score of 5000, and an enemy missile that reaches the
  player in this frame.\<close>

definition lastLifeMissile :: Game where
  "lastLifeMissile =
     session0\<lparr>g_player := (g_player session0)\<lparr>p_hp := 25, p_lives := 1, p_score := 5000\<rparr>,
              g_missiles := [enemyMissile 360 1072]\<rparr>"

text \<open>The same with an enemy bullet, and 5 health.\<close>

definition lastLifeBullet :: Game where
  "lastLifeBullet =
     session0\<lparr>g_player := (g_player session0)\<lparr>p_hp := 5, p_lives := 1, p_score := 5000\<rparr>,
              g_bullets := [enemyBullet 360 1075]\<rparr>"

text \<open>An active, full shield and an enemy missile, or an enemy bullet, that reaches
  the player in this frame.\<close>

definition shieldedMissile :: Game where
  "shieldedMissile =
     session0\<lparr>g_player := (g_player session0)\<lparr>p_shieldActive := True, p_shieldTimer := 3\<rparr>,
              g_missiles := [enemyMissile 360 1072]\<rparr>"

definition shieldedBullet :: Game where
  "shieldedBullet =
     session0\<lparr>g_player := (g_player session0)\<lparr>p_shieldActive := True, p_shieldTimer := 3\<rparr>,
              g_bullets := [enemyBullet 360 1075]\<rparr>"

text \<open>A basic enemy and a player missile below it, with a combo of 3 running.\<close>

definition missileKill :: Game where
  "missileKill = session0\<lparr>g_enemies := [enemyAt 0 200 300 30],
                          g_missiles := [playerMissile 200 330],
                          g_combo := 3, g_comboTimer := 1\<rparr>"

text \<open>An ammo pickup that reaches the player in this frame.\<close>

definition ammoPickup :: PowerUp where
  "ammoPickup = \<lparr>pu_x = 360, pu_y = 1078.4, pu_vy = 80, pu_active = True, pu_type = 3,
                 pu_bob = 1\<rparr>"



text \<open>100 seconds into the session, no boss alive.\<close>

definition bossDue :: Game where
  "bossDue = session0\<lparr>g_gameTime := 100\<rparr>"

section \<open>Properties\<close>

subsection \<open>Loops\<close>

lemma forEach_Cons:
  "forEach body (x # xs) s =
     (fst (body x s) # fst (forEach body xs (snd (body x s))),
      snd (forEach body xs (snd (body x s))))"
  by (simp split: prod.splits)

lemma forEach_invariant:
  "(\<And>x s. P s \<Longrightarrow> P (snd (body x s))) \<Longrightarrow> P s \<Longrightarrow> P (snd (forEach body xs s))"
  by (induction xs arbitrary: s) (simp_all add: forEach_Cons del: forEach.simps(2))

lemma forEach_list_all:
  "(\<And>x s. Q x \<Longrightarrow> Q (fst (body x s))) \<Longrightarrow> list_all Q xs \<Longrightarrow>
   list_all Q (fst (forEach body xs s))"
  by (induction xs arbitrary: s) (simp_all add: forEach_Cons del: forEach.simps(2))

lemma forEach_fst_map:
  "(\<And>x s. fst (body x s) = f x) \<Longrightarrow> fst (forEach body xs s) = map f xs"
  by (induction xs arbitrary: s) (simp_all add: forEach_Cons del: forEach.simps(2))

subsection \<open>Distances\<close>

lemma dist2D_less_iff:
  "0 < r \<Longrightarrow>
   dist2D x1 y1 x2 y2 < r \<longleftrightarrow> (x2 - x1) * (x2 - x1) + (y2 - y1) * (y2 - y1) < r * r"
  unfolding dist2D_def Let_def
  by (metis abs_of_pos real_sqrt_abs2 real_sqrt_less_iff)

lemma dist2D_less_dist2D_iff:
  "dist2D x1 y1 x2 y2 < dist2D u1 v1 u2 v2 \<longleftrightarrow>
   (x2 - x1) * (x2 - x1) + (y2 - y1) * (y2 - y1) < (u2 - u1) * (u2 - u1) + (v2 - v1) * (v2 - v1)"
  by (simp add: dist2D_def Let_def)

lemma sqrt_400: "sqrt 400 = 20"
  by (rule real_sqrt_unique) simp_all

lemma sqrt_900: "sqrt 900 = 30"
  by (rule real_sqrt_unique) simp_all

lemmas state_defs = session0_def blankPlayer_def initPlayer_def enemyAt_def playerBullet_def
  enemyBullet_def playerMissile_def enemyMissile_def spawnEnemy_def rand_def Let_def

lemmas frame_defs = updateGame_def beforeMissiles_def timers_def clamp_def playerMovement_def
  autoFire_def backgroundScroll_def enemySpawning_def bossSpawn_def powerupSpawning_def
  updateBullets_def updateBullet_def bulletVsEnemy_def bulletVsPlayer_def spawnExplosion_def
  spawnPowerup_def signed_divide_int_def updateMissiles_def updateMissile_def homing_def
  normalize_def fdiv_def lerp_def missileVsEnemy_def missileVsPlayer_def updateEnemies_def
  updateEnemy_def enemyMovement_def updateExplosions_def updateExplosion_def afterExplosions_def cleanup_def
  updatePowerups_def updatePowerup_def shieldTimer_def levelProgression_def float_to_int_def
  dist2D_less_iff dist2D_less_dist2D_iff sqrt_400 sqrt_900

subsection \<open>The bomb\<close>

lemma bombEnemy_fst:
  "fst (bombEnemy e g) =
     (if e_active e then e\<lparr>e_hp := e_hp e - 150, e_active := \<not> e_hp e - 150 \<le> 0\<rparr> else e)"
  by (simp add: bombEnemy_def Let_def)

lemma bombEnemy_player:
  "g_player (snd (bombEnemy e g)) =
     (if e_active e \<and> e_hp e - 150 \<le> 0
      then (g_player g)\<lparr>p_score := p_score (g_player g) + e_score e,
                         p_kills := p_kills (g_player g) + 1\<rparr>
      else g_player g)"
  by (simp add: bombEnemy_def Let_def spawnExplosion_def)

lemma bomb_loop_score:
  "p_score (g_player (snd (forEach bombEnemy es g))) =
     p_score (g_player g) +
     sum_list (map e_score (filter (\<lambda>e. e_active e \<and> e_hp e - 150 \<le> 0) es))"
  by (induction es arbitrary: g)
     (simp_all add: forEach_Cons bombEnemy_player del: forEach.simps(2))

lemma bomb_loop_bombs:
  "p_bombs (g_player (snd (forEach bombEnemy es g))) = p_bombs (g_player g)"
  by (induction es arbitrary: g)
     (simp_all add: forEach_Cons bombEnemy_player del: forEach.simps(2))

lemma playerBomb_unfold:
  assumes "0 < p_bombs (g_player g)"
  shows "playerBomb g =
     (let r = forEach bombEnemy (g_enemies g)
                (g\<lparr>g_player := (g_player g)\<lparr>p_bombs := p_bombs (g_player g) - 1\<rparr>\<rparr>)
      in spawnExplosion ((snd r)\<lparr>g_enemies := fst r, g_shakeAmt := 20, g_shakeTimer := 0.5\<rparr>)
           (real_of_int (SCREEN_W sdiv 2)) (real_of_int (PLAY_H sdiv 2)) 300 C_PURPLE)"
  using assms by (simp add: playerBomb_def Let_def split: prod.splits)

text \<open>Claim C8. With at least one bomb left, \<open>playerBomb\<close> takes one bomb, takes
  exactly 150 hit points from every active enemy, deactivates exactly those whose hit
  points are then at most 0, and adds to the score the sum of the \<^verbatim>\<open>score\<close> fields
  of the enemies it has killed, without any combo factor.\<close>

theorem playerBomb_damage_conservation:
  assumes "0 < p_bombs (g_player g)"
  shows "p_bombs (g_player (playerBomb g)) = p_bombs (g_player g) - 1 \<and>
         g_enemies (playerBomb g) =
           map (\<lambda>e. if e_active e
                     then e\<lparr>e_hp := e_hp e - 150, e_active := \<not> e_hp e - 150 \<le> 0\<rparr>
                     else e) (g_enemies g) \<and>
         p_score (g_player (playerBomb g)) =
           p_score (g_player g) +
           sum_list (map e_score (filter (\<lambda>e. e_active e \<and> e_hp e - 150 \<le> 0) (g_enemies g)))"
proof -
  let ?r = "forEach bombEnemy (g_enemies g)
              (g\<lparr>g_player := (g_player g)\<lparr>p_bombs := p_bombs (g_player g) - 1\<rparr>\<rparr>)"
  have pl: "g_player (playerBomb g) = g_player (snd ?r)"
    by (simp add: playerBomb_unfold [OF assms] Let_def spawnExplosion_def)
  have en: "g_enemies (playerBomb g) = fst ?r"
    by (simp add: playerBomb_unfold [OF assms] Let_def spawnExplosion_def)
  have "fst ?r = map (\<lambda>e. if e_active e
                     then e\<lparr>e_hp := e_hp e - 150, e_active := \<not> e_hp e - 150 \<le> 0\<rparr>
                     else e) (g_enemies g)"
    by (rule forEach_fst_map) (rule bombEnemy_fst)
  then show ?thesis
    unfolding pl en by (simp add: bomb_loop_score bomb_loop_bombs)
qed

theorem playerBomb_damage_conservation_witness:
  "0 < p_bombs (g_player bombScene) \<and>
   p_bombs (g_player (playerBomb bombScene)) = 2 \<and>
   map e_hp (g_enemies (playerBomb bombScene)) = [- 120, 350] \<and>
   map e_active (g_enemies (playerBomb bombScene)) = [False, True] \<and>
   p_score (g_player (playerBomb bombScene)) = 100"
proof -
  have h: "0 < p_bombs (g_player bombScene)"
    by (simp add: bombScene_def state_defs)
  show ?thesis
    using h playerBomb_damage_conservation [OF h]
    by (simp add: bombScene_def state_defs)
qed

subsection \<open>Firing a missile without ammo\<close>

text \<open>Claim C9. With no ammo, \<open>playerFireMissile\<close> returns the state it was given:
  ammo, score and every pool are as before.\<close>

theorem fireMissile_without_ammo:
  "p_ammo (g_player g) = 0 \<Longrightarrow> playerFireMissile g = Some g"
  by (simp add: playerFireMissile_def)

theorem fireMissile_without_ammo_witness:
  "p_ammo (g_player outOfAmmo) = 0 \<and> playerFireMissile outOfAmmo = Some outOfAmmo"
proof -
  have h: "p_ammo (g_player outOfAmmo) = 0"
    by (simp add: outOfAmmo_def state_defs)
  show ?thesis
    using h fireMissile_without_ammo [OF h] by simp
qed


subsection \<open>Hits on enemies\<close>

text \<open>Claim C1 says that a player bullet or missile damages one enemy at most: the
  first one in range. The inner loops over the enemies neither stop at the first hit nor
  test whether the projectile is still active. With two basic enemies (30 hit points
  each) within 30 of a bullet of damage 10, both are left with 20 hit points, by the
  bullet block alone and by the whole frame; with two within 35 of a missile of damage
  50, both are killed by that one missile.\<close>

theorem hit_damages_every_enemy_in_range:
  "map e_hp (g_enemies twoInRange) = [30, 30] \<and>
   map b_damage (g_bullets twoInRange) = [10] \<and>
   map e_hp (g_enemies (updateBullets twoInRange)) = [20, 20] \<and>
   map_option (map e_hp \<circ> g_enemies) (updateGame twoInRange) = Some [20, 20] \<and>
   map e_hp (g_enemies twoInBlast) = [30, 30] \<and>
   map m_damage (g_missiles twoInBlast) = [50] \<and>
   map_option (map e_hp \<circ> g_enemies) (updateMissiles twoInBlast) = Some [- 20, - 20] \<and>
   map_option (p_kills \<circ> g_player) (updateGame twoInBlast) = Some 2"
  by (simp add: twoInRange_def twoInBlast_def state_defs frame_defs)

subsection \<open>Hits on the player\<close>

text \<open>Claim C3 says that the high score is recorded whenever the last life is lost. The
  missile branch ends the session without touching the high score: after a frame in
  which an enemy missile takes the last life of a player with a score of 5000, the state
  is \<open>STATE_GAMEOVER\<close> and the high score is still 0. The bullet branch records it.\<close>

theorem missile_death_skips_high_score:
  "p_score (g_player lastLifeMissile) = 5000 \<and> g_highScore lastLifeMissile = 0 \<and>
   map_option g_state (updateGame lastLifeMissile) = Some STATE_GAMEOVER \<and>
   map_option (p_lives \<circ> g_player) (updateGame lastLifeMissile) = Some 0 \<and>
   map_option (p_score \<circ> g_player) (updateGame lastLifeMissile) = Some 5000 \<and>
   map_option g_highScore (updateGame lastLifeMissile) = Some 0 \<and>
   map_option g_state (updateGame lastLifeBullet) = Some STATE_GAMEOVER \<and>
   map_option g_highScore (updateGame lastLifeBullet) = Some 5000"
  by (simp add: lastLifeMissile_def lastLifeBullet_def state_defs frame_defs)

text \<open>Claim C4 says that an active shield absorbs every enemy hit. The missile branch
  never looks at the shield: an enemy missile of damage 25 that hits a player with an
  active shield of 50 leaves the shield at 50 and takes the health from 100 to 75. An
  enemy bullet of damage 10 in the same situation takes the shield to 40 and leaves the
  health at 100.\<close>

theorem missile_bypasses_shield:
  "p_shieldActive (g_player shieldedMissile) \<and> p_shield (g_player shieldedMissile) = 50 \<and>
   p_hp (g_player shieldedMissile) = 100 \<and> map m_damage (g_missiles shieldedMissile) = [25] \<and>
   map_option (p_shield \<circ> g_player) (updateGame shieldedMissile) = Some 50 \<and>
   map_option (p_hp \<circ> g_player) (updateGame shieldedMissile) = Some 75 \<and>
   map_option (p_shield \<circ> g_player) (updateGame shieldedBullet) = Some 40 \<and>
   map_option (p_hp \<circ> g_player) (updateGame shieldedBullet) = Some 100"
  by (simp add: shieldedMissile_def shieldedBullet_def state_defs frame_defs)

subsection \<open>Kills by a missile, and the level\<close>

text \<open>Claim C5 says that a kill by a player missile increments the combo and resets its
  timer to 2 seconds, and that every boss kill advances the level by one. A frame in
  which a player missile kills a basic enemy counts the kill and awards twice its score,
  but leaves the combo at 3 and lets its timer run down from 1 to 0.98. A frame in which
  a bullet kills the boss at level 4 ends at level 4: the last statement of
  \<^verbatim>\<open>updateGame\<close> recomputes the level from the elapsed time.\<close>

theorem missile_kill_leaves_combo:
  "g_combo missileKill = 3 \<and> g_comboTimer missileKill = 1 \<and>
   map_option (p_kills \<circ> g_player) (updateGame missileKill) = Some 1 \<and>
   map_option (p_score \<circ> g_player) (updateGame missileKill) = Some 200 \<and>
   map_option g_combo (updateGame missileKill) = Some 3 \<and>
   map_option g_comboTimer (updateGame missileKill) = Some 0.98 \<and>
   p_level (g_player bossFight) = 4 \<and>
   map_option (p_kills \<circ> g_player) (updateGame bossFight) = Some 1 \<and>
   map_option (p_level \<circ> g_player) (updateGame bossFight) = Some 4"
  by (simp add: missileKill_def bossFight_def state_defs frame_defs)



subsection \<open>Pickups\<close>

lemma dist2D_less_dy: "dist2D x1 y1 x2 y2 < r \<Longrightarrow> y1 - y2 < r"
proof -
  assume a: "dist2D x1 y1 x2 y2 < r"
  have "\<bar>y2 - y1\<bar> = sqrt ((y2 - y1) * (y2 - y1))" by simp
  also have "\<dots> \<le> sqrt ((x2 - x1) * (x2 - x1) + (y2 - y1) * (y2 - y1))"
    by (rule real_sqrt_le_mono) simp
  finally have "\<bar>y2 - y1\<bar> \<le> dist2D x1 y1 x2 y2" by (simp add: dist2D_def Let_def)
  with a show ?thesis by linarith
qed

text \<open>Claim C10. An active pickup that, after its fall in this frame, is within 40
  of the player is collected, whatever the invulnerability timer: it is deactivated, the
  effect of its kind is applied (30 health up to the maximum; 30 shield up to the maximum
  and 5 seconds of active shield; 8 seconds of rapid fire; 5 missiles; one bomb) and the
  score grows by exactly 50 for every kind. The player is inside the playable rectangle,
  where the movement block of the frame has put it, so that a pickup in reach has not
  left the screen.\<close>

theorem pickup_collected:
  assumes act: "pu_active pu"
      and py: "p_y (g_player g) \<le> real_of_int (PLAY_H - 80)"
      and near: "dist2D (pu_x pu) (pu_y pu + pu_vy pu * g_dt g)
                   (p_x (g_player g)) (p_y (g_player g)) < 40"
  shows "\<not> pu_active (fst (updatePowerup pu g)) \<and>
         p_score (g_player (snd (updatePowerup pu g))) = p_score (g_player g) + 50 \<and>
         (pu_type pu = 0 \<longrightarrow>
            p_hp (g_player (snd (updatePowerup pu g))) =
              min (p_maxHp (g_player g)) (p_hp (g_player g) + 30)) \<and>
         (pu_type pu = 1 \<longrightarrow>
            p_shield (g_player (snd (updatePowerup pu g))) =
              min (p_maxShield (g_player g)) (p_shield (g_player g) + 30) \<and>
            p_shieldActive (g_player (snd (updatePowerup pu g))) \<and>
            p_shieldTimer (g_player (snd (updatePowerup pu g))) = 5) \<and>
         (pu_type pu = 2 \<longrightarrow>
            p_rapidFire (g_player (snd (updatePowerup pu g))) \<and>
            p_rapidTimer (g_player (snd (updatePowerup pu g))) = 8) \<and>
         (pu_type pu = 3 \<longrightarrow>
            p_ammo (g_player (snd (updatePowerup pu g))) = p_ammo (g_player g) + 5) \<and>
         (pu_type pu = 4 \<longrightarrow>
            p_bombs (g_player (snd (updatePowerup pu g))) = p_bombs (g_player g) + 1)"
proof -
  have "pu_y pu + pu_vy pu * g_dt g - p_y (g_player g) < 40"
    using near by (rule dist2D_less_dy)
  with py have on_screen: "\<not> pu_y pu + pu_vy pu * g_dt g > real_of_int (PLAY_H + 50)"
    by simp
  show ?thesis
    using act near on_screen
    by (simp add: updatePowerup_def Let_def spawnExplosion_def)
qed

theorem pickup_collected_witness:
  "pu_active ammoPickup \<and> p_y (g_player session0) \<le> real_of_int (PLAY_H - 80) \<and>
   dist2D (pu_x ammoPickup) (pu_y ammoPickup + pu_vy ammoPickup * g_dt session0)
     (p_x (g_player session0)) (p_y (g_player session0)) < 40 \<and>
   pu_type ammoPickup = 3 \<and>
   \<not> pu_active (fst (updatePowerup ammoPickup session0)) \<and>
   p_score (g_player (snd (updatePowerup ammoPickup session0))) = 50 \<and>
   p_ammo (g_player (snd (updatePowerup ammoPickup session0))) = 15"
proof -
  have a: "pu_active ammoPickup" by (simp add: ammoPickup_def)
  have b: "p_y (g_player session0) \<le> real_of_int (PLAY_H - 80)" by (simp add: state_defs)
  have c: "dist2D (pu_x ammoPickup) (pu_y ammoPickup + pu_vy ammoPickup * g_dt session0)
     (p_x (g_player session0)) (p_y (g_player session0)) < 40"
    by (simp add: ammoPickup_def state_defs dist2D_less_iff)
  have t: "pu_type ammoPickup = 3" by (simp add: ammoPickup_def)
  have s: "p_score (g_player session0) = 0" "p_ammo (g_player session0) = 10" by (simp_all add: state_defs)
  show ?thesis
    using a b c t s pickup_collected [OF a b c] by simp
qed

subsection \<open>Homing\<close>

lemma normalize_total: "\<exists>q. normalize dx dy = Some q"
  by (simp add: normalize_def fdiv_def Let_def)

lemma normalize_zero: "normalize 0 0 = Some (0, 0)"
  by (simp add: normalize_def)

lemma homing_total: "\<exists>m'. homing dt m es = Some m'"
proof -
  obtain nd tg where n: "nearestEnemy (m_x m) (m_y m) es (9999, None) = (nd, tg)"
    by (cases "nearestEnemy (m_x m) (m_y m) es (9999, None)")
  show ?thesis
  proof (cases tg)
    case None
    with n show ?thesis by (simp add: homing_def)
  next
    case (Some t)
    obtain q where q: "normalize (e_x t - m_x m) (e_y t - m_y m) = Some q"
      using normalize_total by blast
    with n Some show ?thesis
      by (cases q) (simp add: homing_def Let_def)
  qed
qed

text \<open>Claim C7, as amended. When the nearest active enemy of a player missile is at
  the position of the missile, the direction has length zero, the division by the length
  is skipped (no division by zero is evaluated: the result is not \<open>None\<close>), and the
  velocity is blended towards the zero vector: each component \<open>v\<close> becomes
  \<open>v + (0 - v) * (dt * 3)\<close>.\<close>

theorem homing_zero_direction:
  assumes "\<not> m_isEnemy m"
      and "nearestEnemy (m_x m) (m_y m) es (9999, None) = (d, Some t)"
      and "e_x t = m_x m" and "e_y t = m_y m"
  shows "normalize (e_x t - m_x m) (e_y t - m_y m) = Some (0, 0) \<and>
         homing dt m es =
           Some (m\<lparr>m_vx := m_vx m + (0 - m_vx m) * (dt * 3),
                   m_vy := m_vy m + (0 - m_vy m) * (dt * 3)\<rparr>)"
proof -
  have ne: "es \<noteq> []" using assms(2) by (cases es) simp_all
  show ?thesis
    using assms ne by (simp add: homing_def normalize_zero lerp_def Let_def)
qed

theorem homing_zero_direction_witness:
  "\<not> m_isEnemy (playerMissile 200 300) \<and>
   nearestEnemy 200 300 [enemyAt 0 200 300 30] (9999, None) = (0, Some (enemyAt 0 200 300 30)) \<and>
   homing 0.02 (playerMissile 200 300) [enemyAt 0 200 300 30] =
     Some ((playerMissile 200 300)\<lparr>m_vx := 0, m_vy := - 376\<rparr>)"
proof -
  have a: "\<not> m_isEnemy (playerMissile 200 300)" by (simp add: playerMissile_def)
  have b: "nearestEnemy (m_x (playerMissile 200 300)) (m_y (playerMissile 200 300))
             [enemyAt 0 200 300 30] (9999, None) = (0, Some (enemyAt 0 200 300 30))"
    by (simp add: state_defs dist2D_def)
  have c: "e_x (enemyAt 0 200 300 30) = m_x (playerMissile 200 300)"
          "e_y (enemyAt 0 200 300 30) = m_y (playerMissile 200 300)"
    by (simp_all add: state_defs)
  show ?thesis
    using a b homing_zero_direction [OF a b c, of "0.02"]
    by (simp add: playerMissile_def)
qed

text \<open>Claim C7 as stated says that the velocity is left unchanged. A missile flying up
  at 400 whose target is at its own position leaves the homing block at 376, for a frame
  of 20 ms.\<close>

theorem homing_zero_direction_slows_missile:
  "nearestEnemy 200 300 [enemyAt 0 200 300 30] (9999, None) = (0, Some (enemyAt 0 200 300 30)) \<and>
   m_x (playerMissile 200 300) = e_x (enemyAt 0 200 300 30) \<and>
   m_y (playerMissile 200 300) = e_y (enemyAt 0 200 300 30) \<and>
   m_vy (playerMissile 200 300) = - 400 \<and>
   map_option m_vy (homing 0.02 (playerMissile 200 300) [enemyAt 0 200 300 30]) = Some (- 376)"
  by (simp add: state_defs homing_def normalize_def lerp_def dist2D_def)



subsection \<open>The counters of the player\<close>

lemma alive_ok_iff:
  "alive_ok g \<longleftrightarrow>
     (g_state g = STATE_PLAYING \<longrightarrow> 0 < p_hp (g_player g) \<and> 1 \<le> p_lives (g_player g)) \<and>
     (g_state g \<noteq> STATE_PLAYING \<longrightarrow> 0 < p_invTimer (g_player g))"
  by (simp add: alive_ok_def)

lemmas ok_defs = frame_ok_def counters_ok_def alive_ok_iff pools_ok_def

lemma timers_proj:
  "g_state (timers g) = g_state g"
  "g_bullets (timers g) = g_bullets g"
  "g_missiles (timers g) = g_missiles g"
  "g_explosions (timers g) = g_explosions g"
  "p_hp (g_player (timers g)) = p_hp (g_player g)"
  "p_maxHp (g_player (timers g)) = p_maxHp (g_player g)"
  "p_shield (g_player (timers g)) = p_shield (g_player g)"
  "p_maxShield (g_player (timers g)) = p_maxShield (g_player g)"
  "p_ammo (g_player (timers g)) = p_ammo (g_player g)"
  "p_bombs (g_player (timers g)) = p_bombs (g_player g)"
  "p_lives (g_player (timers g)) = p_lives (g_player g)"
  by (simp_all add: timers_def Let_def)

lemma frame_ok_timers: "session_ok g \<Longrightarrow> g_state g = STATE_PLAYING \<Longrightarrow> frame_ok (timers g)"
  by (simp add: session_ok_def ok_defs timers_proj)

lemma frame_ok_playerMovement: "frame_ok g \<Longrightarrow> frame_ok (playerMovement g)"
  by (simp add: ok_defs playerMovement_def Let_def)

lemma frame_ok_playerShoot: "frame_ok g \<Longrightarrow> frame_ok (playerShoot g)"
  by (simp add: ok_defs playerShoot_def spawnBullet_def Let_def)

lemma frame_ok_autoFire: "frame_ok g \<Longrightarrow> frame_ok (autoFire g)"
  by (simp add: autoFire_def frame_ok_playerShoot)

lemma frame_ok_upd:
  "frame_ok (g\<lparr>g_rng := r\<rparr>) = frame_ok g"
  "frame_ok (g\<lparr>g_stars := ss\<rparr>) = frame_ok g"
  "frame_ok (g\<lparr>g_clouds := cs\<rparr>) = frame_ok g"
  "frame_ok (g\<lparr>g_mountains := ms\<rparr>) = frame_ok g"
  "frame_ok (g\<lparr>g_enemies := es\<rparr>) = frame_ok g"
  "frame_ok (g\<lparr>g_powerups := pus\<rparr>) = frame_ok g"
  "frame_ok (g\<lparr>g_enemySpawnTimer := t\<rparr>) = frame_ok g"
  "frame_ok (g\<lparr>g_powerupSpawnTimer := t\<rparr>) = frame_ok g"
  "frame_ok (g\<lparr>g_bossAlive := ba\<rparr>) = frame_ok g"
  "frame_ok (g\<lparr>g_combo := c\<rparr>) = frame_ok g"
  "frame_ok (g\<lparr>g_comboTimer := t\<rparr>) = frame_ok g"
  "frame_ok (g\<lparr>g_shakeAmt := t\<rparr>) = frame_ok g"
  "frame_ok (g\<lparr>g_shakeTimer := t\<rparr>) = frame_ok g"
  "frame_ok (g\<lparr>g_highScore := h\<rparr>) = frame_ok g"
  "frame_ok (g\<lparr>g_gameoverTimer := t\<rparr>) = frame_ok g"
  by (simp_all add: ok_defs)

lemma frame_ok_scrollStar: "frame_ok g \<Longrightarrow> frame_ok (snd (scrollStar dt s g))"
  by (simp add: scrollStar_def rand_def Let_def frame_ok_upd)

lemma frame_ok_scrollCloud: "frame_ok g \<Longrightarrow> frame_ok (snd (scrollCloud dt s g))"
  by (simp add: scrollCloud_def rand_def Let_def frame_ok_upd)

lemma frame_ok_scrollMountain: "frame_ok g \<Longrightarrow> frame_ok (snd (scrollMountain dt s g))"
  by (simp add: scrollMountain_def rand_def Let_def frame_ok_upd)

lemma frame_ok_backgroundScroll: "frame_ok g \<Longrightarrow> frame_ok (backgroundScroll g)"
proof -
  assume a: "frame_ok g"
  let ?dt = "g_dt g"
  let ?r1 = "forEach (scrollStar ?dt) (g_stars g) g"
  let ?g1 = "(snd ?r1)\<lparr>g_stars := fst ?r1\<rparr>"
  let ?r2 = "forEach (scrollCloud ?dt) (g_clouds ?g1) ?g1"
  let ?g2 = "(snd ?r2)\<lparr>g_clouds := fst ?r2\<rparr>"
  let ?r3 = "forEach (scrollMountain ?dt) (g_mountains ?g2) ?g2"
  let ?g3 = "(snd ?r3)\<lparr>g_mountains := fst ?r3\<rparr>"
  have e: "backgroundScroll g = ?g3"
    by (simp add: backgroundScroll_def Let_def split: prod.splits)
  have 1: "frame_ok ?g1"
    using a by (simp add: frame_ok_upd forEach_invariant [where P = frame_ok] frame_ok_scrollStar)
  have 2: "frame_ok ?g2"
    using 1 by (simp only: frame_ok_upd forEach_invariant [where P = frame_ok] frame_ok_scrollCloud)
  have 3: "frame_ok ?g3"
    using 2 by (simp only: frame_ok_upd forEach_invariant [where P = frame_ok] frame_ok_scrollMountain)
  show ?thesis unfolding e by (rule 3)
qed

lemma frame_ok_spawnEnemy: "frame_ok g \<Longrightarrow> frame_ok (spawnEnemy g t)"
  by (simp add: ok_defs spawnEnemy_def rand_def Let_def split: prod.splits)

lemma frame_ok_enemySpawning: "frame_ok g \<Longrightarrow> frame_ok (enemySpawning g)"
  by (simp add: enemySpawning_def Let_def rand_def frame_ok_upd frame_ok_spawnEnemy
           split: prod.splits)

lemma frame_ok_bossSpawn: "frame_ok g \<Longrightarrow> frame_ok (bossSpawn g)"
  by (simp add: bossSpawn_def Let_def frame_ok_upd frame_ok_spawnEnemy)

lemma spawnExplosion_proj:
  "g_player (spawnExplosion g x y sz c) = g_player g"
  "g_state (spawnExplosion g x y sz c) = g_state g"
  "g_bullets (spawnExplosion g x y sz c) = g_bullets g"
  "g_missiles (spawnExplosion g x y sz c) = g_missiles g"
  "g_enemies (spawnExplosion g x y sz c) = g_enemies g"
  "g_powerups (spawnExplosion g x y sz c) = g_powerups g"
  "g_combo (spawnExplosion g x y sz c) = g_combo g"
  "g_comboTimer (spawnExplosion g x y sz c) = g_comboTimer g"
  "g_bossAlive (spawnExplosion g x y sz c) = g_bossAlive g"
  "g_highScore (spawnExplosion g x y sz c) = g_highScore g"
  "g_gameTime (spawnExplosion g x y sz c) = g_gameTime g"
  "g_dt (spawnExplosion g x y sz c) = g_dt g"
  "g_rng (spawnExplosion g x y sz c) = g_rng g"
  by (simp_all add: spawnExplosion_def)

lemma spawnPowerup_proj:
  "g_player (spawnPowerup g x y) = g_player g"
  "g_state (spawnPowerup g x y) = g_state g"
  "g_bullets (spawnPowerup g x y) = g_bullets g"
  "g_missiles (spawnPowerup g x y) = g_missiles g"
  "g_enemies (spawnPowerup g x y) = g_enemies g"
  "g_explosions (spawnPowerup g x y) = g_explosions g"
  "g_combo (spawnPowerup g x y) = g_combo g"
  "g_comboTimer (spawnPowerup g x y) = g_comboTimer g"
  "g_bossAlive (spawnPowerup g x y) = g_bossAlive g"
  "g_highScore (spawnPowerup g x y) = g_highScore g"
  "g_gameTime (spawnPowerup g x y) = g_gameTime g"
  "g_dt (spawnPowerup g x y) = g_dt g"
  by (simp_all add: spawnPowerup_def rand_def)

lemma spawnBullet_proj:
  "g_player (spawnBullet g x y vx vy ie c d) = g_player g"
  "g_state (spawnBullet g x y vx vy ie c d) = g_state g"
  "g_missiles (spawnBullet g x y vx vy ie c d) = g_missiles g"
  "g_enemies (spawnBullet g x y vx vy ie c d) = g_enemies g"
  "g_explosions (spawnBullet g x y vx vy ie c d) = g_explosions g"
  "g_powerups (spawnBullet g x y vx vy ie c d) = g_powerups g"
  "g_combo (spawnBullet g x y vx vy ie c d) = g_combo g"
  "g_comboTimer (spawnBullet g x y vx vy ie c d) = g_comboTimer g"
  "g_bossAlive (spawnBullet g x y vx vy ie c d) = g_bossAlive g"
  "g_highScore (spawnBullet g x y vx vy ie c d) = g_highScore g"
  "g_gameTime (spawnBullet g x y vx vy ie c d) = g_gameTime g"
  "g_dt (spawnBullet g x y vx vy ie c d) = g_dt g"
  "g_rng (spawnBullet g x y vx vy ie c d) = g_rng g"
  by (simp_all add: spawnBullet_def)

lemma frame_ok_spawnPowerup: "frame_ok (spawnPowerup g x y) = frame_ok g"
  by (simp add: spawnPowerup_def rand_def frame_ok_upd)

lemma frame_ok_spawnExplosion: "frame_ok (spawnExplosion g x y sz c) = frame_ok g"
  by (simp add: spawnExplosion_def ok_defs)

lemma frame_ok_spawnBullet: "0 \<le> d \<Longrightarrow> frame_ok (spawnBullet g x y vx vy ie c d) = frame_ok g"
  by (simp add: spawnBullet_def ok_defs)

lemma frame_ok_powerupSpawning: "frame_ok g \<Longrightarrow> frame_ok (powerupSpawning g)"
  by (simp add: powerupSpawning_def Let_def rand_def frame_ok_upd frame_ok_spawnPowerup)

text \<open>The fields of the player the invariant reads.\<close>

lemma frame_ok_player:
  "p_hp p' = p_hp (g_player g) \<Longrightarrow> p_maxHp p' = p_maxHp (g_player g) \<Longrightarrow>
   p_shield p' = p_shield (g_player g) \<Longrightarrow> p_maxShield p' = p_maxShield (g_player g) \<Longrightarrow>
   p_ammo p' = p_ammo (g_player g) \<Longrightarrow> p_bombs p' = p_bombs (g_player g) \<Longrightarrow>
   p_lives p' = p_lives (g_player g) \<Longrightarrow> p_invTimer p' = p_invTimer (g_player g) \<Longrightarrow>
   frame_ok (g\<lparr>g_player := p'\<rparr>) = frame_ok g"
  by (simp add: ok_defs)

lemmas frame_ok_simps = frame_ok_upd frame_ok_player frame_ok_spawnExplosion
  frame_ok_spawnPowerup spawnExplosion_proj spawnPowerup_proj spawnBullet_proj

lemma frame_ok_bulletVsEnemy:
  "frame_ok (snd (snd (bulletVsEnemy e bg))) = frame_ok (snd bg)"
  by (cases bg) (simp add: bulletVsEnemy_def Let_def rand_def frame_ok_simps)

lemma damage_bulletVsEnemy:
  "b_damage (fst (snd (bulletVsEnemy e bg))) = b_damage (fst bg)"
  by (cases bg) (simp add: bulletVsEnemy_def Let_def rand_def)

lemma frame_ok_bulletVsPlayer:
  "frame_ok g \<Longrightarrow> 0 \<le> b_damage b \<Longrightarrow> frame_ok (snd (bulletVsPlayer b g))"
  by (auto simp add: bulletVsPlayer_def Let_def spawnExplosion_def ok_defs)

lemma damage_bulletVsPlayer: "b_damage (fst (bulletVsPlayer b g)) = b_damage b"
  by (simp add: bulletVsPlayer_def Let_def)

lemma frame_ok_missileVsEnemy:
  "frame_ok (snd (snd (missileVsEnemy e mg))) = frame_ok (snd mg)"
  by (cases mg) (simp add: missileVsEnemy_def Let_def rand_def frame_ok_simps)

lemma damage_missileVsEnemy:
  "m_damage (fst (snd (missileVsEnemy e mg))) = m_damage (fst mg)"
  by (cases mg) (simp add: missileVsEnemy_def Let_def rand_def)

lemma frame_ok_missileVsPlayer:
  "frame_ok g \<Longrightarrow> 0 \<le> m_damage m \<Longrightarrow> frame_ok (snd (missileVsPlayer m g))"
  by (auto simp add: missileVsPlayer_def Let_def spawnExplosion_def ok_defs)

lemma damage_missileVsPlayer: "m_damage (fst (missileVsPlayer m g)) = m_damage m"
  by (simp add: missileVsPlayer_def Let_def)

lemma forEach_both:
  assumes step: "\<And>x s. Q x \<Longrightarrow> P s \<Longrightarrow> Q (fst (body x s)) \<and> P (snd (body x s))"
  shows "list_all Q xs \<Longrightarrow> P s \<Longrightarrow>
         list_all Q (fst (forEach body xs s)) \<and> P (snd (forEach body xs s))"
proof (induction xs arbitrary: s)
  case Nil
  then show ?case by simp
next
  case (Cons x xs)
  from Cons.prems have q: "Q x" and qs: "list_all Q xs" by simp_all
  from step [OF q Cons.prems(2)] have 1: "Q (fst (body x s))" and 2: "P (snd (body x s))"
    by simp_all
  from Cons.IH [OF qs 2] 1 show ?case
    by (simp add: forEach_Cons del: forEach.simps(2))
qed

lemma forEachM_both:
  assumes step: "\<And>x s. Q x \<Longrightarrow> P s \<Longrightarrow> \<exists>x' s'. body x s = Some (x', s') \<and> Q x' \<and> P s'"
  shows "list_all Q xs \<Longrightarrow> P s \<Longrightarrow>
         \<exists>xs' s'. forEachM body xs s = Some (xs', s') \<and> list_all Q xs' \<and> P s'"
proof (induction xs arbitrary: s)
  case Nil
  then show ?case by simp
next
  case (Cons x xs)
  from Cons.prems have q: "Q x" and qs: "list_all Q xs" by simp_all
  from step [OF q Cons.prems(2)] obtain x' s1
    where 1: "body x s = Some (x', s1)" "Q x'" "P s1" by blast
  from Cons.IH [OF qs 1(3)] obtain xs' s2
    where 2: "forEachM body xs s1 = Some (xs', s2)" "list_all Q xs'" "P s2" by blast
  from 1 2 show ?case by simp
qed

lemma frame_ok_updateBullet:
  assumes q: "0 \<le> b_damage b" and p: "frame_ok g"
  shows "0 \<le> b_damage (fst (updateBullet b g)) \<and> frame_ok (snd (updateBullet b g))"
proof -
  define b1 where "b1 = b\<lparr>b_x := b_x b + b_vx b * g_dt g\<rparr>"
  define b2 where "b2 = b1\<lparr>b_y := b_y b1 + b_vy b1 * g_dt g\<rparr>"
  define b3 where "b3 = (if b_y b2 < - 20 \<or> b_y b2 > real_of_int (PLAY_H + 20) \<or>
                    b_x b2 < - 20 \<or> b_x b2 > real_of_int (SCREEN_W + 20)
                 then b2\<lparr>b_active := False\<rparr> else b2)"
  have d3: "0 \<le> b_damage b3" and e3: "b_isEnemy b3 = b_isEnemy b"
    using q by (simp_all add: b3_def b2_def b1_def)
  let ?r = "forEach bulletVsEnemy (g_enemies g) (b3, g)"
  have u: "updateBullet b g =
     (if \<not> b_active b then (b, g)
      else if \<not> b_isEnemy b then (fst (snd ?r), (snd (snd ?r))\<lparr>g_enemies := fst ?r\<rparr>)
      else bulletVsPlayer b3 g)"
    by (simp add: updateBullet_def Let_def b3_def b2_def b1_def split: prod.splits)
  have inner: "0 \<le> b_damage (fst (snd ?r)) \<and> frame_ok (snd (snd ?r))"
    by (rule forEach_invariant
          [where P = "\<lambda>bg. 0 \<le> b_damage (fst bg) \<and> frame_ok (snd bg)"])
       (simp_all add: damage_bulletVsEnemy frame_ok_bulletVsEnemy d3 p)
  show ?thesis
    unfolding u
    using q p inner d3
    by (simp add: frame_ok_upd damage_bulletVsPlayer frame_ok_bulletVsPlayer)
qed

lemma frame_ok_bullets_upd:
  "frame_ok g \<Longrightarrow> list_all (\<lambda>b. 0 \<le> b_damage b) bs \<Longrightarrow> frame_ok (g\<lparr>g_bullets := bs\<rparr>)"
  by (simp add: ok_defs)

lemma frame_ok_missiles_upd:
  "frame_ok g \<Longrightarrow> list_all (\<lambda>m. 0 \<le> m_damage m) ms \<Longrightarrow> frame_ok (g\<lparr>g_missiles := ms\<rparr>)"
  by (simp add: ok_defs)

lemma frame_ok_bulletsD: "frame_ok g \<Longrightarrow> list_all (\<lambda>b. 0 \<le> b_damage b) (g_bullets g)"
  by (simp add: ok_defs)

lemma frame_ok_missilesD: "frame_ok g \<Longrightarrow> list_all (\<lambda>m. 0 \<le> m_damage m) (g_missiles g)"
  by (simp add: ok_defs)

lemma frame_ok_updateBullets: "frame_ok g \<Longrightarrow> frame_ok (updateBullets g)"
proof -
  assume a: "frame_ok g"
  let ?r = "forEach updateBullet (g_bullets g) g"
  have "list_all (\<lambda>b. 0 \<le> b_damage b) (fst ?r) \<and> frame_ok (snd ?r)"
  proof (rule forEach_both [where Q = "\<lambda>b. 0 \<le> b_damage b" and P = frame_ok])
    show "\<And>x s. 0 \<le> b_damage x \<Longrightarrow> frame_ok s \<Longrightarrow>
            0 \<le> b_damage (fst (updateBullet x s)) \<and> frame_ok (snd (updateBullet x s))"
      by (rule frame_ok_updateBullet)
    show "list_all (\<lambda>b. 0 \<le> b_damage b) (g_bullets g)" by (rule frame_ok_bulletsD [OF a])
    show "frame_ok g" by (rule a)
  qed
  then show ?thesis
    by (simp add: updateBullets_def frame_ok_bullets_upd case_prod_unfold)
qed


lemma homing_damage: "homing dt m es = Some m' \<Longrightarrow> m_damage m' = m_damage m"
  by (auto simp add: homing_def Let_def split: if_splits prod.splits option.splits)

lemma homing_isEnemy: "homing dt m es = Some m' \<Longrightarrow> m_isEnemy m' = m_isEnemy m"
  by (auto simp add: homing_def Let_def split: if_splits prod.splits option.splits)

lemma ex_pair_eq: "(\<exists>a b. x = (a, b) \<and> P a b) = P (fst x) (snd x)"
  by (cases x) simp

lemma missile_enemies_loop_ok:
  "0 \<le> m_damage m \<Longrightarrow> frame_ok g \<Longrightarrow>
   0 \<le> m_damage (fst (snd (forEach missileVsEnemy es (m, g)))) \<and>
   frame_ok (snd (snd (forEach missileVsEnemy es (m, g))))"
  by (rule forEach_invariant
        [where P = "\<lambda>mg. 0 \<le> m_damage (fst mg) \<and> frame_ok (snd mg)"])
     (simp_all add: damage_missileVsEnemy frame_ok_missileVsEnemy)

lemma bullet_enemies_loop_ok:
  "0 \<le> b_damage b \<Longrightarrow> frame_ok g \<Longrightarrow>
   0 \<le> b_damage (fst (snd (forEach bulletVsEnemy es (b, g)))) \<and>
   frame_ok (snd (snd (forEach bulletVsEnemy es (b, g))))"
  by (rule forEach_invariant
        [where P = "\<lambda>bg. 0 \<le> b_damage (fst bg) \<and> frame_ok (snd bg)"])
     (simp_all add: damage_bulletVsEnemy frame_ok_bulletVsEnemy)

lemma frame_ok_updateMissile:
  assumes q: "0 \<le> m_damage m" and p: "frame_ok g"
  shows "\<exists>r. updateMissile m g = Some r \<and> 0 \<le> m_damage (fst r) \<and> frame_ok (snd r)"
proof (cases "\<not> m_active m \<or> m_life m - g_dt g \<le> 0")
  case True
  then show ?thesis using q p by (auto simp add: updateMissile_def Let_def)
next
  case False
  obtain m2 where h: "homing (g_dt g) (m\<lparr>m_life := m_life m - g_dt g\<rparr>) (g_enemies g) = Some m2"
    using homing_total by blast
  have d2: "0 \<le> m_damage m2"
    using q homing_damage [OF h] by simp
  define m4 where "m4 = m2\<lparr>m_x := m_x m2 + m_vx m2 * g_dt g,
                          m_y := m_y m2 + m_vy m2 * g_dt g\<rparr>"
  have d4: "0 \<le> m_damage m4" using d2 by (simp add: m4_def)
  have ie: "m_isEnemy m4 = m_isEnemy m2" by (simp add: m4_def)
  have xy: "m2\<lparr>m_x := m_x m2 + m_vx m2 * g_dt g, m_y := m_y m2 + m_vy m2 * g_dt g\<rparr> = m4"
    by (simp add: m4_def)
  show ?thesis
  proof (cases "m_isEnemy m2")
    case True
    with False h show ?thesis
      using damage_missileVsPlayer [of m4 g] frame_ok_missileVsPlayer [OF p d4] d4
      by (simp add: updateMissile_def Let_def xy ie case_prod_unfold ex_pair_eq)
  next
    case ne: False
    with False h show ?thesis
      using missile_enemies_loop_ok [OF d4 p, of "g_enemies g"]
      by (simp add: updateMissile_def Let_def xy ie case_prod_unfold frame_ok_upd ex_pair_eq)
  qed
qed

lemma frame_ok_updateMissiles:
  assumes a: "frame_ok g"
  shows "\<exists>g'. updateMissiles g = Some g' \<and> frame_ok g'"
proof -
  have "\<exists>ms' g'. forEachM updateMissile (g_missiles g) g = Some (ms', g') \<and>
          list_all (\<lambda>m. 0 \<le> m_damage m) ms' \<and> frame_ok g'"
  proof (rule forEachM_both [where Q = "\<lambda>m. 0 \<le> m_damage m" and P = frame_ok])
    show "\<And>x s. 0 \<le> m_damage x \<Longrightarrow> frame_ok s \<Longrightarrow>
            \<exists>x' s'. updateMissile x s = Some (x', s') \<and> 0 \<le> m_damage x' \<and> frame_ok s'"
      using frame_ok_updateMissile by force
    show "list_all (\<lambda>m. 0 \<le> m_damage m) (g_missiles g)" by (rule frame_ok_missilesD [OF a])
    show "frame_ok g" by (rule a)
  qed
  then show ?thesis
    by (auto simp add: updateMissiles_def frame_ok_missiles_upd)
qed


lemma frame_ok_bossSpread: "frame_ok (bossSpread is e dx dy g) = frame_ok g"
  by (induction "is" arbitrary: g) (simp_all add: Let_def frame_ok_spawnBullet)

lemma bossSpread_rng: "g_rng (bossSpread is e dx dy g) = g_rng g"
  by (induction "is" arbitrary: g) (simp_all add: Let_def spawnBullet_proj)

lemma spawnMissile_total: "\<exists>g'. spawnMissile g x y tx ty ie d = Some g'"
proof -
  obtain q where "normalize (tx - x) (ty - y) = Some q" using normalize_total by blast
  then show ?thesis by (cases q) (simp add: spawnMissile_def)
qed

lemma frame_ok_spawnMissile:
  "spawnMissile g x y tx ty ie d = Some g' \<Longrightarrow> 0 \<le> d \<Longrightarrow> frame_ok g' = frame_ok g"
  by (auto simp add: spawnMissile_def ok_defs split: option.splits)

lemma case_spawnMissile:
  "(case spawnMissile g x y tx ty ie d of None \<Rightarrow> None | Some g' \<Rightarrow> Some (f g')) =
   Some (f (the (spawnMissile g x y tx ty ie d)))"
  using spawnMissile_total [of g x y tx ty ie d] by auto

lemma frame_ok_the_spawnMissile:
  "0 \<le> d \<Longrightarrow> frame_ok (the (spawnMissile g x y tx ty ie d)) = frame_ok g"
  using spawnMissile_total [of g x y tx ty ie d] frame_ok_spawnMissile by fastforce

lemma frame_ok_enemyShoot:
  assumes p: "frame_ok g"
  shows "\<exists>r. enemyShoot e g = Some r \<and> frame_ok (snd r)"
proof -
  obtain dx dy
    where n: "normalize (p_x (g_player g) - e_x e) (p_y (g_player g) - e_y e) = Some (dx, dy)"
    using normalize_total by (metis surj_pair)
  show ?thesis
    using p
    by (simp add: enemyShoot_def Let_def rand_def n case_spawnMissile
          frame_ok_the_spawnMissile frame_ok_upd frame_ok_bossSpread frame_ok_spawnBullet
          del: bossSpread.simps)
qed

lemma frame_ok_updateEnemy:
  assumes p: "frame_ok g"
  shows "\<exists>r. updateEnemy e g = Some r \<and> frame_ok (snd r)"
  using p frame_ok_enemyShoot [OF p]
  by (simp add: updateEnemy_def Let_def)

lemma frame_ok_updateEnemies:
  assumes a: "frame_ok g"
  shows "\<exists>g'. updateEnemies g = Some g' \<and> frame_ok g'"
proof -
  have "\<exists>es' g'. forEachM updateEnemy (g_enemies g) g = Some (es', g') \<and>
          list_all (\<lambda>e. True) es' \<and> frame_ok g'"
  proof (rule forEachM_both [where Q = "\<lambda>e. True" and P = frame_ok])
    show "\<And>x s. True \<Longrightarrow> frame_ok s \<Longrightarrow>
            \<exists>x' s'. updateEnemy x s = Some (x', s') \<and> True \<and> frame_ok s'"
      using frame_ok_updateEnemy by force
    show "list_all (\<lambda>e. True) (g_enemies g)" by (simp add: list_all_iff)
    show "frame_ok g" by (rule a)
  qed
  then show ?thesis
    by (auto simp add: updateEnemies_def frame_ok_upd)
qed

lemma explosions_total:
  "list_all (\<lambda>ex. ex_maxLife ex \<noteq> 0) exs \<Longrightarrow>
   \<exists>exs'. those (map (updateExplosion dt) exs) = Some exs' \<and>
           list_all (\<lambda>ex. ex_maxLife ex \<noteq> 0) exs'"
  by (induction exs) (auto simp add: updateExplosion_def fdiv_def Let_def)

lemma frame_ok_explosions_upd:
  "frame_ok g \<Longrightarrow> list_all (\<lambda>ex. ex_maxLife ex \<noteq> 0) exs \<Longrightarrow>
   frame_ok (g\<lparr>g_explosions := exs\<rparr>)"
  by (simp add: ok_defs)

lemma frame_ok_updateExplosions:
  assumes a: "frame_ok g"
  shows "\<exists>g'. updateExplosions g = Some g' \<and> frame_ok g'"
proof -
  have "list_all (\<lambda>ex. ex_maxLife ex \<noteq> 0) (g_explosions g)"
    using a by (simp add: ok_defs)
  from explosions_total [OF this, of "g_dt g"] obtain exs'
    where e: "those (map (updateExplosion (g_dt g)) (g_explosions g)) = Some exs'"
      and ok: "list_all (\<lambda>ex. ex_maxLife ex \<noteq> 0) exs'" by blast
  have "list_all (\<lambda>ex. ex_maxLife ex \<noteq> 0) (filter (\<lambda>e. \<not> ex_life e \<le> 0) exs')"
    using ok by (simp add: list_all_iff)
  with a show ?thesis
    by (simp add: updateExplosions_def e frame_ok_explosions_upd)
qed

lemma frame_ok_cleanup: "frame_ok g \<Longrightarrow> frame_ok (cleanup g)"
  by (simp add: cleanup_def Let_def ok_defs list_all_iff)

lemma frame_ok_updatePowerup: "frame_ok g \<Longrightarrow> frame_ok (snd (updatePowerup pu g))"
  by (auto simp add: updatePowerup_def Let_def spawnExplosion_def ok_defs)

lemma frame_ok_updatePowerups: "frame_ok g \<Longrightarrow> frame_ok (updatePowerups g)"
  by (simp add: updatePowerups_def case_prod_unfold frame_ok_upd
        forEach_invariant [where P = frame_ok] frame_ok_updatePowerup)

lemma frame_ok_shieldTimer: "frame_ok g \<Longrightarrow> frame_ok (shieldTimer g)"
  by (simp add: shieldTimer_def Let_def ok_defs)

lemma frame_ok_levelProgression: "frame_ok g \<Longrightarrow> frame_ok (levelProgression g)"
  by (simp add: levelProgression_def ok_defs)

lemma frame_ok_beforeMissiles:
  "session_ok g \<Longrightarrow> g_state g = STATE_PLAYING \<Longrightarrow> frame_ok (beforeMissiles g)"
  unfolding beforeMissiles_def
  by (intro frame_ok_updateBullets frame_ok_powerupSpawning frame_ok_bossSpawn
        frame_ok_enemySpawning frame_ok_backgroundScroll frame_ok_autoFire
        frame_ok_playerMovement frame_ok_timers)

lemma frame_ok_afterExplosions: "frame_ok g \<Longrightarrow> frame_ok (afterExplosions g)"
  unfolding afterExplosions_def
  by (intro frame_ok_levelProgression frame_ok_shieldTimer frame_ok_updatePowerups
        frame_ok_cleanup)

lemma frame_ok_session_ok: "frame_ok g \<Longrightarrow> session_ok g"
  by (simp add: session_ok_def ok_defs)

lemma session_ok_updateGame:
  assumes s: "session_ok g" and pl: "g_state g = STATE_PLAYING"
  shows "\<exists>g'. updateGame g = Some g' \<and> session_ok g'"
proof -
  from frame_ok_updateMissiles [OF frame_ok_beforeMissiles [OF s pl]] obtain g1
    where 1: "updateMissiles (beforeMissiles g) = Some g1" "frame_ok g1" by blast
  from frame_ok_updateEnemies [OF 1(2)] obtain g2
    where 2: "updateEnemies g1 = Some g2" "frame_ok g2" by blast
  from frame_ok_updateExplosions [OF 2(2)] obtain g3
    where 3: "updateExplosions g2 = Some g3" "frame_ok g3" by blast
  show ?thesis
    using 1 2 3 by (simp add: updateGame_def frame_ok_session_ok frame_ok_afterExplosions)
qed


lemma session_ok_playing: "g_state g = STATE_PLAYING \<Longrightarrow> session_ok g = frame_ok g"
  by (simp add: session_ok_def ok_defs)

lemma frame_ok_bombEnemy: "frame_ok (snd (bombEnemy e g)) = frame_ok g"
  by (simp add: bombEnemy_def Let_def frame_ok_simps)

lemma frame_ok_playerBomb: "frame_ok g \<Longrightarrow> frame_ok (playerBomb g)"
proof (cases "p_bombs (g_player g) \<le> 0")
  case True
  then show "frame_ok g \<Longrightarrow> frame_ok (playerBomb g)" by (simp add: playerBomb_def)
next
  case False
  assume a: "frame_ok g"
  let ?g1 = "g\<lparr>g_player := (g_player g)\<lparr>p_bombs := p_bombs (g_player g) - 1\<rparr>\<rparr>"
  have 1: "frame_ok ?g1" using a False by (simp add: ok_defs)
  have "frame_ok (snd (forEach bombEnemy (g_enemies ?g1) ?g1))"
    using 1 by (simp only: forEach_invariant [where P = frame_ok] frame_ok_bombEnemy)
  then show "frame_ok (playerBomb g)"
    using False by (simp add: playerBomb_def Let_def case_prod_unfold frame_ok_simps)
qed

lemma frame_ok_playerFireMissile:
  assumes a: "frame_ok g"
  shows "\<exists>g'. playerFireMissile g = Some g' \<and> frame_ok g'"
proof (cases "p_ammo (g_player g) \<le> 0")
  case True
  with a show ?thesis by (simp add: playerFireMissile_def)
next
  case False
  let ?g1 = "g\<lparr>g_player := (g_player g)\<lparr>p_ammo := p_ammo (g_player g) - 1\<rparr>\<rparr>"
  have 1: "frame_ok ?g1" using a False by (simp add: ok_defs)
  obtain nd tx ty where n: "nearestTarget (p_x (g_player g)) (p_y (g_player g)) (g_enemies g)
              (9999, p_x (g_player g), - 100) = (nd, tx, ty)"
    using prod_cases3 by blast
  obtain g' where m: "spawnMissile ?g1 (p_x (g_player g)) (p_y (g_player g) - 40) tx ty False 50 = Some g'"
    using spawnMissile_total by blast
  have "frame_ok g'" using frame_ok_spawnMissile [OF m] 1 by simp
  then show ?thesis
    using False n m by (simp add: playerFireMissile_def Let_def)
qed

text \<open>Claim C6, as amended. From a playing session in which the health is positive and
  at most its maximum, the shield is between 0 and its maximum, ammo and bombs are not
  negative, a life is left, no projectile has a negative damage and every explosion has a
  non-zero total life, the frame update and the three player actions finish without a
  float division by zero and lead to a state in which the health is at most its maximum,
  the shield is between 0 and its maximum, and ammo, bombs and lives are not negative;
  while the session is still playing the health is positive and a life is left. Nothing
  is said of a lower bound of the health once the session is over, nor of an upper bound
  of ammo and bombs: the code has none.\<close>

theorem counters_preserved:
  assumes s: "session_ok g" and pl: "g_state g = STATE_PLAYING"
  shows "(\<exists>g'. updateGame g = Some g' \<and> session_ok g') \<and>
         session_ok (playerShoot g) \<and>
         (\<exists>g'. playerFireMissile g = Some g' \<and> session_ok g') \<and>
         session_ok (playerBomb g)"
proof -
  have f: "frame_ok g" using s pl by (simp add: session_ok_playing)
  have 1: "\<exists>g'. updateGame g = Some g' \<and> session_ok g'"
    using s pl by (rule session_ok_updateGame)
  have 2: "session_ok (playerShoot g)"
    by (rule frame_ok_session_ok [OF frame_ok_playerShoot [OF f]])
  have 3: "\<exists>g'. playerFireMissile g = Some g' \<and> session_ok g'"
    using frame_ok_playerFireMissile [OF f] frame_ok_session_ok by blast
  have 4: "session_ok (playerBomb g)"
    by (rule frame_ok_session_ok [OF frame_ok_playerBomb [OF f]])
  from 1 2 3 4 show ?thesis by blast
qed

theorem counters_preserved_witness:
  "session_ok lastLifeBullet \<and> g_state lastLifeBullet = STATE_PLAYING \<and>
   (\<exists>g'. updateGame lastLifeBullet = Some g' \<and> session_ok g') \<and>
   session_ok (playerShoot lastLifeBullet) \<and>
   (\<exists>g'. playerFireMissile lastLifeBullet = Some g' \<and> session_ok g') \<and>
   session_ok (playerBomb lastLifeBullet)"
proof -
  have a: "session_ok lastLifeBullet"
    by (simp add: session_ok_def counters_ok_def pools_ok_def lastLifeBullet_def state_defs)
  have b: "g_state lastLifeBullet = STATE_PLAYING"
    by (simp add: lastLifeBullet_def state_defs)
  show ?thesis using a b counters_preserved [OF a b] by simp
qed

text \<open>Claim C6 as stated says that the health stays in \<open>[0, maxHealth]\<close> and that
  every counter is clamped to a maximum. An enemy bullet of damage 10 that takes the last
  life of a player with 5 health leaves the health at -5, and an ammo pickup takes the
  ammo from the 10 of a new session to 15.\<close>

theorem health_can_go_negative:
  "session_ok lastLifeBullet \<and> g_state lastLifeBullet = STATE_PLAYING \<and>
   p_hp (g_player lastLifeBullet) = 5 \<and>
   map_option (p_hp \<circ> g_player) (updateGame lastLifeBullet) = Some (- 5) \<and>
   map_option g_state (updateGame lastLifeBullet) = Some STATE_GAMEOVER \<and>
   p_ammo (g_player session0) = 10 \<and>
   p_ammo (g_player (snd (updatePowerup ammoPickup session0))) = 15"
  by (simp add: lastLifeBullet_def ammoPickup_def state_defs frame_defs session_ok_def counters_ok_def pools_ok_def)

subsection \<open>The boss\<close>

lemma spawnEnemy_boss:
  "spawnEnemy g 3 =
     g\<lparr>g_rng := (\<lambda>n. g_rng g (Suc (Suc n))),
       g_enemies := g_enemies g @
         [\<lparr>e_x = real_of_int SCREEN_W / 2, e_y = - 80, e_vx = 100, e_vy = 30, e_active = True,
           e_hp = 500, e_maxHp = 500, e_type = 3, e_shootTimer = 0.4, e_shootInterval = 0.4,
           e_moveTimer = 0, e_depth = 5 + real_of_int (int (g_rng g (Suc 0)) mod 10),
           e_score = 5000\<rparr>]\<rparr>"
  by (simp add: spawnEnemy_def rand_def Let_def)

text \<open>Claim C2, as amended. The boss block of a frame spawns one boss (type 3, 500 hit
  points, horizontally centred) and sets the latch whenever the elapsed time exceeds 90
  seconds and the latch is clear, and does nothing otherwise. A hit by a player bullet or
  a player missile that takes the last hit points of a boss deactivates it and clears
  the latch. So a boss is spawned again in the first frame after such a kill.\<close>

theorem boss_latch:
  "(90 < g_gameTime g \<and> \<not> g_bossAlive g \<longrightarrow>
      g_bossAlive (bossSpawn g) \<and>
      (\<exists>e. g_enemies (bossSpawn g) = g_enemies g @ [e] \<and> e_type e = 3 \<and> e_active e \<and>
           e_hp e = 500 \<and> e_x e = 360 \<and> e_y e = - 80)) \<and>
   (\<not> (90 < g_gameTime g \<and> \<not> g_bossAlive g) \<longrightarrow> bossSpawn g = g) \<and>
   (e_active e \<and> e_type e = 3 \<and> dist2D (b_x b) (b_y b) (e_x e) (e_y e) < 50 \<and>
    e_hp e - b_damage b \<le> 0 \<longrightarrow>
      \<not> e_active (fst (bulletVsEnemy e (b, g))) \<and>
      \<not> g_bossAlive (snd (snd (bulletVsEnemy e (b, g))))) \<and>
   (e_active e \<and> e_type e = 3 \<and> dist2D (m_x m) (m_y m) (e_x e) (e_y e) < 60 \<and>
    e_hp e - m_damage m \<le> 0 \<longrightarrow>
      \<not> e_active (fst (missileVsEnemy e (m, g))) \<and>
      \<not> g_bossAlive (snd (snd (missileVsEnemy e (m, g)))))"
proof -
  have 1: "90 < g_gameTime g \<and> \<not> g_bossAlive g \<longrightarrow>
      g_bossAlive (bossSpawn g) \<and>
      (\<exists>e. g_enemies (bossSpawn g) = g_enemies g @ [e] \<and> e_type e = 3 \<and> e_active e \<and>
           e_hp e = 500 \<and> e_x e = 360 \<and> e_y e = - 80)"
    by (simp add: bossSpawn_def Let_def spawnEnemy_boss)
  have 2: "\<not> (90 < g_gameTime g \<and> \<not> g_bossAlive g) \<longrightarrow> bossSpawn g = g"
    by (simp add: bossSpawn_def)
  have 3: "e_active e \<and> e_type e = 3 \<and> dist2D (b_x b) (b_y b) (e_x e) (e_y e) < 50 \<and>
    e_hp e - b_damage b \<le> 0 \<longrightarrow>
      \<not> e_active (fst (bulletVsEnemy e (b, g))) \<and>
      \<not> g_bossAlive (snd (snd (bulletVsEnemy e (b, g))))"
    by (simp add: bulletVsEnemy_def Let_def rand_def spawnPowerup_proj spawnExplosion_proj)
  have 4: "e_active e \<and> e_type e = 3 \<and> dist2D (m_x m) (m_y m) (e_x e) (e_y e) < 60 \<and>
    e_hp e - m_damage m \<le> 0 \<longrightarrow>
      \<not> e_active (fst (missileVsEnemy e (m, g))) \<and>
      \<not> g_bossAlive (snd (snd (missileVsEnemy e (m, g))))"
    by (simp add: missileVsEnemy_def Let_def rand_def spawnPowerup_proj spawnExplosion_proj)
  from 1 2 3 4 show ?thesis by blast
qed

theorem boss_latch_witness:
  "(90 < g_gameTime bossDue \<and> \<not> g_bossAlive bossDue) \<and>
   g_bossAlive (bossSpawn bossDue) \<and>
   (\<exists>e. g_enemies (bossSpawn bossDue) = g_enemies bossDue @ [e] \<and> e_type e = 3 \<and>
        e_active e \<and> e_hp e = 500 \<and> e_x e = 360 \<and> e_y e = - 80) \<and>
   \<not> (90 < g_gameTime bossFight \<and> \<not> g_bossAlive bossFight) \<and>
   bossSpawn bossFight = bossFight \<and>
   (e_active (enemyAt 3 360 100 10) \<and> e_type (enemyAt 3 360 100 10) = 3 \<and>
    dist2D (b_x (playerBullet 360 100)) (b_y (playerBullet 360 100))
      (e_x (enemyAt 3 360 100 10)) (e_y (enemyAt 3 360 100 10)) < 50 \<and>
    e_hp (enemyAt 3 360 100 10) - b_damage (playerBullet 360 100) \<le> 0) \<and>
   \<not> g_bossAlive (snd (snd (bulletVsEnemy (enemyAt 3 360 100 10)
                              (playerBullet 360 100, bossFight)))) \<and>
   (e_active (enemyAt 3 360 100 10) \<and> e_type (enemyAt 3 360 100 10) = 3 \<and>
    dist2D (m_x (playerMissile 360 100)) (m_y (playerMissile 360 100))
      (e_x (enemyAt 3 360 100 10)) (e_y (enemyAt 3 360 100 10)) < 60 \<and>
    e_hp (enemyAt 3 360 100 10) - m_damage (playerMissile 360 100) \<le> 0) \<and>
   \<not> g_bossAlive (snd (snd (missileVsEnemy (enemyAt 3 360 100 10)
                              (playerMissile 360 100, bossFight))))"
proof -
  have h1: "90 < g_gameTime bossDue \<and> \<not> g_bossAlive bossDue"
    by (simp add: bossDue_def state_defs)
  have h2: "\<not> (90 < g_gameTime bossFight \<and> \<not> g_bossAlive bossFight)"
    by (simp add: bossFight_def state_defs)
  have h3: "e_active (enemyAt 3 360 100 10) \<and> e_type (enemyAt 3 360 100 10) = 3 \<and>
    dist2D (b_x (playerBullet 360 100)) (b_y (playerBullet 360 100))
      (e_x (enemyAt 3 360 100 10)) (e_y (enemyAt 3 360 100 10)) < 50 \<and>
    e_hp (enemyAt 3 360 100 10) - b_damage (playerBullet 360 100) \<le> 0"
    by (simp add: state_defs dist2D_less_iff)
  have h4: "e_active (enemyAt 3 360 100 10) \<and> e_type (enemyAt 3 360 100 10) = 3 \<and>
    dist2D (m_x (playerMissile 360 100)) (m_y (playerMissile 360 100))
      (e_x (enemyAt 3 360 100 10)) (e_y (enemyAt 3 360 100 10)) < 60 \<and>
    e_hp (enemyAt 3 360 100 10) - m_damage (playerMissile 360 100) \<le> 0"
    by (simp add: state_defs dist2D_less_iff)
  show ?thesis
    using h1 h2 h3 h4
      boss_latch [where g = bossDue and e = "enemyAt 3 360 100 10"
                    and b = "playerBullet 360 100" and m = "playerMissile 360 100"]
      boss_latch [where g = bossFight and e = "enemyAt 3 360 100 10"
                    and b = "playerBullet 360 100" and m = "playerMissile 360 100"]
    by blast
qed

text \<open>Claim C2 as stated says that no second boss is ever spawned in a session and that
  a bomb kill clears the latch too. In the frame in which a bullet kills the boss the
  latch is cleared, and the next frame spawns a new boss with 500 hit points. A bomb that
  kills the boss leaves the latch set.\<close>

theorem boss_respawns_after_kill:
  "g_bossAlive bossFight \<and> map e_type (g_enemies bossFight) = [3] \<and>
   map_option g_bossAlive (updateGame bossFight) = Some False \<and>
   map_option (map e_type \<circ> g_enemies) (updateGame bossFight) = Some [] \<and>
   map_option g_bossAlive (Option.bind (updateGame bossFight) updateGame) = Some True \<and>
   map_option (map e_type \<circ> g_enemies) (Option.bind (updateGame bossFight) updateGame) = Some [3] \<and>
   map_option (map e_hp \<circ> g_enemies) (Option.bind (updateGame bossFight) updateGame) = Some [500] \<and>
   map e_active (g_enemies (playerBomb bossFight)) = [False] \<and>
   g_bossAlive (playerBomb bossFight)"
  by (simp add: bossFight_def state_defs frame_defs playerBomb_def bombEnemy_def)



subsection \<open>The player stays inside the playable rectangle\<close>

text \<open>The movement block clamps the position of the player, and no later block of the
  frame moves the player: the loop over the powerups runs with the player inside the
  playable rectangle, which is what the property of the pickups assumes.\<close>

lemma playerMovement_in_rectangle:
  "60 \<le> p_y (g_player (playerMovement g)) \<and>
   p_y (g_player (playerMovement g)) \<le> real_of_int (PLAY_H - 80)"
  by (simp add: playerMovement_def clamp_def Let_def)

lemma py_playerShoot: "p_y (g_player (playerShoot g)) = p_y (g_player g)"
  by (simp add: playerShoot_def Let_def spawnBullet_proj)

lemma py_scroll:
  "p_y (g_player (snd (scrollStar dt s g))) = p_y (g_player g)"
  "p_y (g_player (snd (scrollCloud dt c g))) = p_y (g_player g)"
  "p_y (g_player (snd (scrollMountain dt m g))) = p_y (g_player g)"
  by (simp_all add: scrollStar_def scrollCloud_def scrollMountain_def rand_def Let_def)

lemma py_forEach:
  "(\<And>x s. p_y (g_player (snd (body x s))) = p_y (g_player s)) \<Longrightarrow>
   p_y (g_player (snd (forEach body xs g))) = p_y (g_player g)"
  by (induction xs arbitrary: g) (simp_all add: forEach_Cons del: forEach.simps(2))

lemma py_backgroundScroll: "p_y (g_player (backgroundScroll g)) = p_y (g_player g)"
  by (simp add: backgroundScroll_def Let_def case_prod_unfold py_forEach py_scroll)

lemma py_spawnEnemy: "p_y (g_player (spawnEnemy g t)) = p_y (g_player g)"
  by (simp add: spawnEnemy_def rand_def Let_def split: prod.splits)

lemma py_enemySpawning: "p_y (g_player (enemySpawning g)) = p_y (g_player g)"
  by (simp add: enemySpawning_def Let_def rand_def py_spawnEnemy split: prod.splits)

lemma py_bossSpawn: "p_y (g_player (bossSpawn g)) = p_y (g_player g)"
  by (simp add: bossSpawn_def Let_def py_spawnEnemy)

lemma py_powerupSpawning: "p_y (g_player (powerupSpawning g)) = p_y (g_player g)"
  by (simp add: powerupSpawning_def Let_def rand_def spawnPowerup_proj)

lemma py_bulletVsEnemy:
  "p_y (g_player (snd (snd (bulletVsEnemy e bg)))) = p_y (g_player (snd bg))"
  by (cases bg)
     (simp add: bulletVsEnemy_def Let_def rand_def spawnPowerup_proj spawnExplosion_proj)

lemma py_bulletVsPlayer: "p_y (g_player (snd (bulletVsPlayer b g))) = p_y (g_player g)"
  by (simp add: bulletVsPlayer_def Let_def spawnExplosion_proj)

lemma py_missileVsEnemy:
  "p_y (g_player (snd (snd (missileVsEnemy e mg)))) = p_y (g_player (snd mg))"
  by (cases mg)
     (simp add: missileVsEnemy_def Let_def rand_def spawnPowerup_proj spawnExplosion_proj)

lemma py_missileVsPlayer: "p_y (g_player (snd (missileVsPlayer m g))) = p_y (g_player g)"
  by (simp add: missileVsPlayer_def Let_def spawnExplosion_proj)

lemma py_forEach_pair:
  "(\<And>x s. p_y (g_player (snd (snd (body x s)))) = p_y (g_player (snd s))) \<Longrightarrow>
   p_y (g_player (snd (snd (forEach body xs bg)))) = p_y (g_player (snd bg))"
  by (induction xs arbitrary: bg) (simp_all add: forEach_Cons del: forEach.simps(2))

lemma py_updateBullet: "p_y (g_player (snd (updateBullet b g))) = p_y (g_player g)"
  by (simp add: updateBullet_def Let_def case_prod_unfold py_bulletVsPlayer
        py_forEach_pair [where body = bulletVsEnemy] py_bulletVsEnemy)

lemma py_updateBullets: "p_y (g_player (updateBullets g)) = p_y (g_player g)"
  by (simp add: updateBullets_def case_prod_unfold py_forEach py_updateBullet)

lemma py_beforeMissiles:
  "p_y (g_player (beforeMissiles g)) \<le> real_of_int (PLAY_H - 80)"
  using playerMovement_in_rectangle [of "timers g"]
  by (simp add: beforeMissiles_def py_updateBullets py_powerupSpawning py_bossSpawn
        py_enemySpawning py_backgroundScroll autoFire_def py_playerShoot)

lemma py_forEachM:
  "(\<And>x s r. body x s = Some r \<Longrightarrow> p_y (g_player (snd r)) = p_y (g_player s)) \<Longrightarrow>
   forEachM body xs g = Some r \<Longrightarrow> p_y (g_player (snd r)) = p_y (g_player g)"
proof (induction xs arbitrary: g r)
  case Nil
  then show ?case by auto
next
  case (Cons x xs)
  from Cons.prems(2) obtain x' g1 xs' g2
    where 1: "body x g = Some (x', g1)" and 2: "forEachM body xs g1 = Some (xs', g2)"
      and r: "r = (x' # xs', g2)"
    by (auto split: option.splits)
  from Cons.prems(1) [OF 1] have "p_y (g_player g1) = p_y (g_player g)" by simp
  moreover from Cons.IH [OF Cons.prems(1) 2] have "p_y (g_player g2) = p_y (g_player g1)"
    by simp
  ultimately show ?case using r by simp
qed

lemma py_updateMissile:
  "updateMissile m g = Some r \<Longrightarrow> p_y (g_player (snd r)) = p_y (g_player g)"
  by (auto simp add: updateMissile_def Let_def case_prod_unfold py_missileVsPlayer
        py_forEach_pair [where body = missileVsEnemy] py_missileVsEnemy
        split: if_splits option.splits)

lemma py_updateMissiles:
  "updateMissiles g = Some g' \<Longrightarrow> p_y (g_player g') = p_y (g_player g)"
  using py_forEachM [where body = updateMissile, OF py_updateMissile]
  by (fastforce simp add: updateMissiles_def split: option.splits)

lemma py_bossSpread: "p_y (g_player (bossSpread is e dx dy g)) = p_y (g_player g)"
  by (induction "is" arbitrary: g) (simp_all add: Let_def spawnBullet_proj)

lemma py_spawnMissile:
  "spawnMissile g x y tx ty ie d = Some g' \<Longrightarrow> p_y (g_player g') = p_y (g_player g)"
  by (auto simp add: spawnMissile_def split: option.splits)

lemma py_the_spawnMissile:
  "p_y (g_player (the (spawnMissile g x y tx ty ie d))) = p_y (g_player g)"
  using spawnMissile_total [of g x y tx ty ie d] py_spawnMissile by fastforce

lemma py_the_enemyShoot: "p_y (g_player (snd (the (enemyShoot e g)))) = p_y (g_player g)"
proof -
  obtain dx dy
    where n: "normalize (p_x (g_player g) - e_x e) (p_y (g_player g) - e_y e) = Some (dx, dy)"
    using normalize_total by (metis surj_pair)
  show ?thesis
    by (simp add: enemyShoot_def Let_def rand_def n case_spawnMissile py_the_spawnMissile
          py_bossSpread spawnBullet_proj del: bossSpread.simps)
qed

lemma py_enemyShoot:
  "enemyShoot e g = Some r \<Longrightarrow> p_y (g_player (snd r)) = p_y (g_player g)"
  using py_the_enemyShoot [of e g] by simp

lemma py_updateEnemy:
  "updateEnemy e g = Some r \<Longrightarrow> p_y (g_player (snd r)) = p_y (g_player g)"
  by (auto simp add: updateEnemy_def Let_def dest: py_enemyShoot split: if_splits)

lemma py_updateEnemies:
  "updateEnemies g = Some g' \<Longrightarrow> p_y (g_player g') = p_y (g_player g)"
  using py_forEachM [where body = updateEnemy, OF py_updateEnemy]
  by (fastforce simp add: updateEnemies_def split: option.splits)

lemma py_updateExplosions:
  "updateExplosions g = Some g' \<Longrightarrow> p_y (g_player g') = p_y (g_player g)"
  by (auto simp add: updateExplosions_def split: option.splits)

lemma py_cleanup: "p_y (g_player (cleanup g)) = p_y (g_player g)"
  by (simp add: cleanup_def Let_def)

lemma powerup_loop_player_in_rectangle:
  assumes "updateMissiles (beforeMissiles g) = Some g1"
      and "updateEnemies g1 = Some g2"
      and "updateExplosions g2 = Some g3"
  shows "p_y (g_player (cleanup g3)) \<le> real_of_int (PLAY_H - 80)"
  using py_beforeMissiles [of g] py_updateMissiles [OF assms(1)] py_updateEnemies [OF assms(2)]
    py_updateExplosions [OF assms(3)]
  by (simp add: py_cleanup)

end
